theory Spec2Isabelle
  imports Main "HOL-Library.Sublist" "HOL-Library.Multiset"
begin

section \<open>Data model (backend/database.py)\<close>

text \<open>
  Timestamps are readings of the clock, taken as natural numbers. Every reading the
  handlers make (\<^verbatim>\<open>datetime.utcnow()\<close>, \<^verbatim>\<open>datetime.now()\<close>, the column defaults evaluated
  at INSERT) is an input of the model, as are the identifiers drawn by \<^verbatim>\<open>uuid.uuid4()\<close>.
  A temperature is carried as the text \<^verbatim>\<open>str(temperature)\<close> stores.
\<close>

type_synonym timestamp = nat

record conversation =
  c_id :: string
  c_title :: string
  c_created_at :: timestamp
  c_updated_at :: timestamp

record message =
  m_id :: string
  m_conversation_id :: string
  m_role :: string
  m_content :: string
  m_model :: "string option"
  m_temperature :: string
  m_thinking_enabled :: bool
  m_created_at :: timestamp

text \<open>The two tables of the relational store.\<close>

record store =
  conversations :: "conversation list"
  messages :: "message list"

section \<open>Model registry (backend/main.py, CLAUDE_MODELS)\<close>

record model_config =
  name :: string
  max_tokens :: nat
  supports_thinking :: bool
  context_window :: nat
  description :: string

definition CLAUDE_MODELS :: "(string \<times> model_config) list" where
  "CLAUDE_MODELS =
     [(''claude-sonnet-4-20250514'',
       \<lparr>name = ''Claude 4 Sonnet'', max_tokens = 64000, supports_thinking = True,
        context_window = 200000,
        description = ''High-performance model with exceptional reasoning capabilities''\<rparr>),
      (''claude-opus-4-20250514'',
       \<lparr>name = ''Claude 4 Opus'', max_tokens = 32000, supports_thinking = True,
        context_window = 200000,
        description = ''Our most capable and intelligent model yet''\<rparr>)]"

datatype py_error = KeyError string

text \<open>
  \<^verbatim>\<open>CLAUDE_MODELS.get(model, CLAUDE_MODELS["claude-sonnet-4-20250514"])\<close>: Python evaluates
  the default argument first, by subscription, which raises \<^verbatim>\<open>KeyError\<close> on a missing key;
  then \<^verbatim>\<open>get\<close> returns the entry of \<^verbatim>\<open>model\<close> or that default.
\<close>

definition get_model_config :: "string \<Rightarrow> py_error + model_config" where
  "get_model_config model =
     (case map_of CLAUDE_MODELS ''claude-sonnet-4-20250514'' of
        None \<Rightarrow> Inl (KeyError ''claude-sonnet-4-20250514'')
      | Some dflt \<Rightarrow>
          Inr (case map_of CLAUDE_MODELS model of Some cfg \<Rightarrow> cfg | None \<Rightarrow> dflt))"

section \<open>Strings (the Python string operations the handlers use)\<close>

text \<open>
  A string is a list of 8-bit characters, read as the code points 0 to 255; text beyond
  that range is outside this development. \<^verbatim>\<open>str.isspace\<close>, \<^verbatim>\<open>str.strip\<close>, \<^verbatim>\<open>str.lower\<close>,
  \<^verbatim>\<open>str.split\<close> and \<^verbatim>\<open>str.join\<close> are written out for these code points.
\<close>

definition isspace :: "char \<Rightarrow> bool" where
  "isspace c =
     (c \<in> {CHR 0x09, CHR 0x0A, CHR 0x0B, CHR 0x0C, CHR 0x0D, CHR 0x1C, CHR 0x1D, CHR 0x1E,
           CHR 0x1F, CHR 0x20, CHR 0x85, CHR 0xA0})"

definition strip :: "string \<Rightarrow> string" where
  "strip s = rev (dropWhile isspace (rev (dropWhile isspace s)))"

definition lower_char :: "char \<Rightarrow> char" where
  "lower_char c =
     (let n = (of_char c :: nat)
      in if (65 \<le> n \<and> n \<le> 90) \<or> (192 \<le> n \<and> n \<le> 222 \<and> n \<noteq> 215)
         then char_of (n + 32) else c)"

definition lower :: "string \<Rightarrow> string" where
  "lower s = map lower_char s"

text \<open>\<^verbatim>\<open>s.split()\<close>: the maximal runs of non-whitespace characters, in order.\<close>

function split :: "string \<Rightarrow> string list" where
  "split s =
     (case dropWhile isspace s of
        [] \<Rightarrow> []
      | c # cs \<Rightarrow>
          takeWhile (\<lambda>x. \<not> isspace x) (c # cs) # split (dropWhile (\<lambda>x. \<not> isspace x) cs))"
  by pat_completeness auto
termination
proof (relation "measure length")
  show "wf (measure length)" by simp
next
  fix s :: string and c cs
  assume "dropWhile isspace s = c # cs"
  then have "length (c # cs) \<le> length s"
    by (metis length_dropWhile_le)
  moreover have "length (dropWhile (\<lambda>x. \<not> isspace x) cs) \<le> length cs"
    by (rule length_dropWhile_le)
  ultimately show "(dropWhile (\<lambda>x. \<not> isspace x) cs, s) \<in> measure length"
    by simp
qed

declare split.simps [simp del]


section \<open>The store's ILIKE operator\<close>

text \<open>
  \<^verbatim>\<open>column.ilike(pattern)\<close> is the ILIKE operator of the PostgreSQL store that
  \<^verbatim>\<open>DATABASE_URL\<close> names, called without an \<^verbatim>\<open>escape\<close> argument. In a pattern \<^verbatim>\<open>%\<close> stands
  for any run of characters, \<^verbatim>\<open>_\<close> for any single character, and a backslash makes the
  character after it stand for itself; every other character stands for itself. A pattern
  that ends in a lone backslash is rejected by the store; \<open>like_match\<close> gives \<open>False\<close>
  there, and the one pattern the handlers build ends in \<^verbatim>\<open>%\<close>. The first argument is the
  pattern, the second the text.
\<close>

fun like_match :: "string \<Rightarrow> string \<Rightarrow> bool" where
  "like_match [] s = (s = [])"
| "like_match (p # ps) s =
     (if p = CHR ''%'' then
        (like_match ps s \<or> (case s of [] \<Rightarrow> False | c # cs \<Rightarrow> like_match (p # ps) cs))
      else if p = CHR ''_'' then
        (case s of [] \<Rightarrow> False | c # cs \<Rightarrow> like_match ps cs)
      else if p = CHR 0x5C then
        (case ps of
           [] \<Rightarrow> False
         | q # qs \<Rightarrow> (case s of [] \<Rightarrow> False | c # cs \<Rightarrow> c = q \<and> like_match qs cs))
      else (case s of [] \<Rightarrow> False | c # cs \<Rightarrow> c = p \<and> like_match ps cs))"

definition ilike :: "string \<Rightarrow> string \<Rightarrow> bool" where
  "ilike text pattern = like_match (lower pattern) (lower text)"

section \<open>Searching the store (backend/main.py)\<close>

datatype http_error = HTTPException nat string

text \<open>
  The query of \<^verbatim>\<open>search_conversations\<close>: conversations LEFT OUTER JOIN messages, filtered
  by title or content, DISTINCT on the conversation, ORDER BY \<^verbatim>\<open>updated_at\<close> DESC. A
  conversation without messages joins to one row with no message, whose content test is
  NULL and so does not select the row.
\<close>

definition outer_join :: "store \<Rightarrow> (conversation \<times> message option) list" where
  "outer_join db =
     concat (map (\<lambda>c. case filter (\<lambda>m. m_conversation_id m = c_id c) (messages db) of
                         [] \<Rightarrow> [(c, None)]
                       | m # ms \<Rightarrow> map (\<lambda>x. (c, Some x)) (m # ms))
                 (conversations db))"

definition row_matches :: "string \<Rightarrow> conversation \<times> message option \<Rightarrow> bool" where
  "row_matches search_term row =
     (ilike (c_title (fst row)) search_term \<or>
      (case snd row of None \<Rightarrow> False | Some m \<Rightarrow> ilike (m_content m) search_term))"

definition order_by_updated_desc :: "conversation list \<Rightarrow> conversation list" where
  "order_by_updated_desc cs = rev (sort_key c_updated_at cs)"

text \<open>
  \<^verbatim>\<open>search_conversations\<close>. The flag \<open>available\<close> says whether the store answers the query;
  when it does not, the handler's \<^verbatim>\<open>except\<close> turns the failure into a 500 response.
\<close>

definition search_conversations ::
  "bool \<Rightarrow> string \<Rightarrow> store \<Rightarrow> http_error + conversation list" where
  "search_conversations available q db =
     (if q = [] \<or> length (strip q) < 2 then Inr []
      else
        let search_term = ''%'' @ lower (strip q) @ ''%''
        in if \<not> available then Inl (HTTPException 500 ''Failed to search conversations'')
           else Inr (order_by_updated_desc
                       (remdups (map fst (filter (row_matches search_term) (outer_join db))))))"

text \<open>\<^verbatim>\<open>db.query(Conversation).filter(Conversation.id == conversation_id).first()\<close>.\<close>

definition find_conversation :: "string \<Rightarrow> conversation list \<Rightarrow> conversation option" where
  "find_conversation conversation_id cs = find (\<lambda>c. c_id c = conversation_id) cs"

text \<open>Writing back the first row with the given identifier.\<close>

fun update_first :: "string \<Rightarrow> (conversation \<Rightarrow> conversation) \<Rightarrow> conversation list \<Rightarrow> conversation list" where
  "update_first conversation_id f [] = []"
| "update_first conversation_id f (c # cs) =
     (if c_id c = conversation_id then f c # cs else c # update_first conversation_id f cs)"

section \<open>The upstream completion and what a handler does\<close>

record chat_message =
  cm_role :: string
  cm_content :: string

text \<open>
  The keyword arguments of \<^verbatim>\<open>claude_client.messages.stream\<close>. \<open>sp_thinking\<close> says that
  the key \<^verbatim>\<open>thinking\<close> is set (its value is \<^verbatim>\<open>True\<close>), \<open>sp_tools\<close> that the web search tool
  is listed.
\<close>

record stream_params =
  sp_model :: string
  sp_max_tokens :: nat
  sp_temperature :: string
  sp_messages :: "chat_message list"
  sp_thinking :: bool
  sp_tools :: bool

text \<open>
  What the text stream of one call yields: the fragments produced, and the exception that
  ended the iteration if one did. \<^verbatim>\<open>asyncio.TimeoutError\<close> is told apart because the
  streaming handler has a clause for it; both carry \<^verbatim>\<open>str(e)\<close>.
\<close>

datatype upstream_error = TimeoutError string | UpstreamError string

type_synonym upstream = "stream_params \<Rightarrow> string list \<times> upstream_error option"

fun error_text :: "upstream_error \<Rightarrow> string" where
  "error_text (TimeoutError s) = s"
| "error_text (UpstreamError s) = s"

text \<open>The JSON notifications written to the WebSocket, by their \<^verbatim>\<open>type\<close> field.\<close>

datatype notification =
    Status string
  | Chunk string string
  | Complete string timestamp
  | Error string

text \<open>
  The effects of a handler, in the order it performs them: the call of the upstream
  stream, a notification sent, \<^verbatim>\<open>asyncio.sleep\<close> (in milliseconds), and the calls on the
  store session (\<open>DbQuery\<close> and \<open>DbCommit\<close> record whether the query was answered and
  whether the commit went through).
\<close>

datatype event =
    Invoke stream_params
  | Send notification
  | Sleep nat
  | DbAdd message
  | DbQuery bool
  | DbCommit bool
  | DbRollback
  | DbClose

section \<open>The store session\<close>

text \<open>
  What a \<^verbatim>\<open>String(n)\<close> column of the PostgreSQL store keeps of a value: the value itself
  when it has at most n characters; its first n characters when the rest are all spaces;
  otherwise the write is an error.
\<close>

definition fit :: "nat \<Rightarrow> string \<Rightarrow> string option" where
  "fit n v =
     (if length v \<le> n then Some v
      else if list_all (\<lambda>c. c = CHR '' '') (drop n v) then Some (take n v) else None)"

text \<open>\<^verbatim>\<open>conversations.title\<close> is \<^verbatim>\<open>String(255)\<close>.\<close>

definition fit_conversation :: "conversation \<Rightarrow> conversation option" where
  "fit_conversation c =
     (case fit 255 (c_title c) of None \<Rightarrow> None | Some t \<Rightarrow> Some (c\<lparr>c_title := t\<rparr>))"

text \<open>
  \<^verbatim>\<open>messages.role\<close> is \<^verbatim>\<open>String(20)\<close>, \<^verbatim>\<open>messages.temperature\<close> \<^verbatim>\<open>String(10)\<close> and
  \<^verbatim>\<open>messages.model\<close> \<^verbatim>\<open>String(100)\<close>, the last one nullable.
\<close>

definition fit_message :: "message \<Rightarrow> message option" where
  "fit_message m =
     (case fit 20 (m_role m) of
        None \<Rightarrow> None
      | Some r \<Rightarrow>
          (case fit 10 (m_temperature m) of
             None \<Rightarrow> None
           | Some t \<Rightarrow>
               (case m_model m of
                  None \<Rightarrow> Some (m\<lparr>m_role := r, m_temperature := t\<rparr>)
                | Some x \<Rightarrow>
                    (case fit 100 x of
                       None \<Rightarrow> None
                     | Some y \<Rightarrow> Some (m\<lparr>m_role := r, m_temperature := t, m_model := Some y\<rparr>)))))"

text \<open>
  The conversation rows a commit writes, from the rows committed before and the session's
  view of them, position by position: a row whose title is unchanged keeps its title
  column as it is; a row whose title changed, and a row that is new, must fit.
\<close>

fun write_rows :: "conversation list \<Rightarrow> conversation list \<Rightarrow> conversation option list" where
  "write_rows (old # olds) (new # news) =
     (if c_title new = c_title old then Some new else fit_conversation new) # write_rows olds news"
| "write_rows [] news = map fit_conversation news"
| "write_rows olds [] = []"

text \<open>
  A session holds the committed tables, the messages added and not yet committed, and its
  view of the conversation rows, which carries the attribute changes and the rows not yet
  committed. A commit fails when the store reports a fault (\<open>fault\<close> is then the text of
  the exception, whatever its cause), when a message added refers to no conversation row,
  which the foreign key of \<^verbatim>\<open>messages.conversation_id\<close> forbids, or when a value written
  does not fit its column; otherwise it writes the pending changes. The identifiers drawn
  for new rows are taken to be fresh.
\<close>

record session =
  persisted :: store
  added :: "message list"
  rows :: "conversation list"

definition get_db_session :: "store \<Rightarrow> session" where
  "get_db_session db = \<lparr>persisted = db, added = [], rows = conversations db\<rparr>"

definition db_add :: "message \<Rightarrow> session \<Rightarrow> session" where
  "db_add m s = s\<lparr>added := added s @ [m]\<rparr>"

definition fk_violation :: string where
  "fk_violation = ''insert or update on table messages violates foreign key constraint''"

definition value_too_long :: string where
  "value_too_long = ''value too long for type character varying''"

definition db_commit :: "string option \<Rightarrow> session \<Rightarrow> string + session" where
  "db_commit fault s =
     (case fault of
        Some e \<Rightarrow> Inl e
      | None \<Rightarrow>
          if list_all (\<lambda>m. m_conversation_id m \<in> set (map c_id (rows s))) (added s)
          then (case those (write_rows (conversations (persisted s)) (rows s)) of
                  None \<Rightarrow> Inl value_too_long
                | Some cs \<Rightarrow>
                    (case those (map fit_message (added s)) of
                       None \<Rightarrow> Inl value_too_long
                     | Some ms \<Rightarrow>
                         Inr (s\<lparr>persisted := \<lparr>conversations = cs,
                                               messages = messages (persisted s) @ ms\<rparr>,
                                added := [], rows := cs\<rparr>)))
          else Inl fk_violation)"

definition db_rollback :: "session \<Rightarrow> session" where
  "db_rollback s = s\<lparr>added := [], rows := conversations (persisted s)\<rparr>"

text \<open>What the store keeps of a message that a commit has accepted.\<close>

definition as_stored :: "message \<Rightarrow> message" where
  "as_stored m = (case fit_message m of Some kept \<Rightarrow> kept | None \<Rightarrow> m)"

section \<open>Conversation endpoints that write (backend/main.py)\<close>




section \<open>Title generation (generate_conversation_title)\<close>

text \<open>The first messages of a conversation: ORDER BY \<^verbatim>\<open>created_at\<close> LIMIT n.\<close>

definition first_messages :: "nat \<Rightarrow> string \<Rightarrow> store \<Rightarrow> message list" where
  "first_messages n conversation_id db =
     take n (sort_key m_created_at
               (filter (\<lambda>m. m_conversation_id m = conversation_id) (messages db)))"









section \<open>Chat requests and their environment\<close>

text \<open>The body of a chat request, with the defaults of \<^verbatim>\<open>ChatRequest\<close> filled in.\<close>

record chat_request =
  rq_message :: string
  rq_conversation_history :: "chat_message list"
  rq_model :: string
  rq_temperature :: string
  rq_enable_thinking :: bool
  rq_conversation_id :: "string option"
  rq_enable_web_search :: bool

text \<open>
  The JSON object received on the WebSocket: each key may be missing, and
  \<^verbatim>\<open>data.get(key, default)\<close> supplies the default (lines 547 to 553).
\<close>

record ws_data =
  ws_message :: "string option"
  ws_conversation_history :: "chat_message list option"
  ws_model :: "string option"
  ws_temperature :: "string option"
  ws_enable_thinking :: "bool option"
  ws_enable_web_search :: "bool option"
  ws_conversation_id :: "string option"

definition extract_request :: "ws_data \<Rightarrow> chat_request" where
  "extract_request data =
     \<lparr>rq_message = (case ws_message data of Some v \<Rightarrow> v | None \<Rightarrow> []),
      rq_conversation_history = (case ws_conversation_history data of Some v \<Rightarrow> v | None \<Rightarrow> []),
      rq_model = (case ws_model data of Some v \<Rightarrow> v | None \<Rightarrow> ''claude-sonnet-4-20250514''),
      rq_temperature = (case ws_temperature data of Some v \<Rightarrow> v | None \<Rightarrow> ''0.1''),
      rq_enable_thinking = (case ws_enable_thinking data of Some v \<Rightarrow> v | None \<Rightarrow> False),
      rq_conversation_id = ws_conversation_id data,
      rq_enable_web_search = (case ws_enable_web_search data of Some v \<Rightarrow> v | None \<Rightarrow> False)\<rparr>"

text \<open>
  What one turn takes from outside the handler: whether \<^verbatim>\<open>claude_client\<close> is set, the
  upstream, the fault (if any) the store reports at the commit of the user message, at the
  query for the conversation row and at the commit of the assistant message, the
  identifiers drawn for the two rows, and the
  clock readings: the \<^verbatim>\<open>created_at\<close> defaults of the two rows, \<^verbatim>\<open>datetime.utcnow()\<close> for the
  conversation's \<^verbatim>\<open>updated_at\<close>, and \<^verbatim>\<open>datetime.now()\<close> for the reply's timestamp.
\<close>

record turn_env =
  client_ready :: bool
  upstream_of :: upstream
  user_commit_fault :: "string option"
  lookup_fault :: "string option"
  assistant_commit_fault :: "string option"
  user_message_id :: string
  assistant_message_id :: string
  user_created_at :: timestamp
  assistant_created_at :: timestamp
  updated_now :: timestamp
  reply_now :: timestamp

text \<open>Python's truth value of an optional string: \<^verbatim>\<open>None\<close> and \<^verbatim>\<open>""\<close> are false.\<close>

fun truthy :: "string option \<Rightarrow> bool" where
  "truthy None = False"
| "truthy (Some s) = (s \<noteq> [])"

fun conversation_id_of :: "string option \<Rightarrow> string" where
  "conversation_id_of None = []"
| "conversation_id_of (Some s) = s"

section \<open>The two persistence steps of a chat turn\<close>

text \<open>
  Saving the user message (lines 417 to 434 of \<^verbatim>\<open>chat_endpoint\<close>, 564 to 581 of
  \<^verbatim>\<open>process_streaming_chat\<close>, the same statements). A failed commit is rolled back and
  raised again: the result is then \<open>Inl\<close>, with the text of the exception.
\<close>

definition user_message_of :: "turn_env \<Rightarrow> chat_request \<Rightarrow> message" where
  "user_message_of env rq =
     \<lparr>m_id = user_message_id env,
      m_conversation_id = conversation_id_of (rq_conversation_id rq),
      m_role = ''user'', m_content = rq_message rq, m_model = None,
      m_temperature = rq_temperature rq, m_thinking_enabled = rq_enable_thinking rq,
      m_created_at = user_created_at env\<rparr>"

definition save_user_message ::
  "turn_env \<Rightarrow> chat_request \<Rightarrow> session \<Rightarrow> (event list \<times> session \<times> string) + (event list \<times> session)" where
  "save_user_message env rq s =
     (if truthy (rq_conversation_id rq) then
        (let user_message = user_message_of env rq;
             s1 = db_add user_message s
         in case db_commit (user_commit_fault env) s1 of
              Inr s2 \<Rightarrow> Inr ([DbAdd user_message, DbCommit True], s2)
            | Inl commit_error \<Rightarrow>
                Inl ([DbAdd user_message, DbCommit False, DbRollback], db_rollback s1,
                     commit_error))
      else Inr ([], s))"

text \<open>
  Saving the assistant message (lines 480 to 502 and 655 to 677). The message is added, the
  conversation row is queried and, when found, stamped, and the session is committed. A
  failure of the query is not caught here: the result is then \<open>Inl\<close>, with the text of the
  exception. A failed commit is rolled back and not raised.
\<close>

definition assistant_message_of :: "turn_env \<Rightarrow> chat_request \<Rightarrow> string \<Rightarrow> message" where
  "assistant_message_of env rq response_text =
     \<lparr>m_id = assistant_message_id env,
      m_conversation_id = conversation_id_of (rq_conversation_id rq),
      m_role = ''assistant'', m_content = response_text, m_model = Some (rq_model rq),
      m_temperature = rq_temperature rq, m_thinking_enabled = rq_enable_thinking rq,
      m_created_at = assistant_created_at env\<rparr>"

definition save_assistant_message ::
  "turn_env \<Rightarrow> chat_request \<Rightarrow> string \<Rightarrow> session
     \<Rightarrow> (event list \<times> session \<times> string) + (event list \<times> session)" where
  "save_assistant_message env rq response_text s =
     (if truthy (rq_conversation_id rq) \<and> response_text \<noteq> [] then
        (let assistant_message = assistant_message_of env rq response_text;
             s1 = db_add assistant_message s
         in case lookup_fault env of
              Some query_error \<Rightarrow>
                Inl ([DbAdd assistant_message, DbQuery False], s1, query_error)
            | None \<Rightarrow>
                (let s2 = (case find_conversation (conversation_id_of (rq_conversation_id rq))
                                  (rows s1) of
                             Some conversation \<Rightarrow>
                               s1\<lparr>rows := update_first (conversation_id_of (rq_conversation_id rq))
                                             (\<lambda>c. c\<lparr>c_updated_at := updated_now env\<rparr>)
                                             (rows s1)\<rparr>
                           | None \<Rightarrow> s1)
                 in case db_commit (assistant_commit_fault env) s2 of
                      Inr s3 \<Rightarrow>
                        Inr ([DbAdd assistant_message, DbQuery True, DbCommit True], s3)
                    | Inl commit_error \<Rightarrow>
                        Inr ([DbAdd assistant_message, DbQuery True, DbCommit False, DbRollback],
                             db_rollback s2)))
      else Inr ([], s))"

text \<open>Lines 436 to 471 and 583 to 620: the arguments of the upstream call.\<close>

definition api_params :: "chat_request \<Rightarrow> model_config \<Rightarrow> stream_params" where
  "api_params rq cfg =
     \<lparr>sp_model = rq_model rq,
      sp_max_tokens = max_tokens cfg,
      sp_temperature = rq_temperature rq,
      sp_messages = rq_conversation_history rq
                    @ [\<lparr>cm_role = ''user'', cm_content = rq_message rq\<rparr>],
      sp_thinking = (rq_enable_thinking rq \<and> supports_thinking cfg),
      sp_tools = rq_enable_web_search rq\<rparr>"

section \<open>Non-streaming chat (chat_endpoint)\<close>

record chat_response =
  cr_message :: string
  cr_timestamp :: timestamp

text \<open>
  \<^verbatim>\<open>chat_endpoint\<close>: every exception raised inside the handler's \<^verbatim>\<open>try\<close> is answered with
  a 500 error that carries its text; the session is closed without a commit, so what was
  pending is not written.
\<close>

definition chat_endpoint ::
  "turn_env \<Rightarrow> chat_request \<Rightarrow> store \<Rightarrow> (http_error + chat_response) \<times> event list \<times> store" where
  "chat_endpoint env rq db =
     (if \<not> client_ready env then (Inl (HTTPException 500 ''Claude client not initialized''), [], db)
      else
        case save_user_message env rq (get_db_session db) of
          Inl (tr, s, e) \<Rightarrow> (Inl (HTTPException 500 e), tr, persisted s)
        | Inr (tr, s) \<Rightarrow>
            (case get_model_config (rq_model rq) of
               Inl (KeyError k) \<Rightarrow> (Inl (HTTPException 500 k), tr, persisted s)
             | Inr cfg \<Rightarrow>
                 (case upstream_of env (api_params rq cfg) of
                    (fragments, Some e) \<Rightarrow>
                      (Inl (HTTPException 500 (error_text e)),
                       tr @ [Invoke (api_params rq cfg)], persisted s)
                  | (fragments, None) \<Rightarrow>
                      (let response_text = concat fragments
                       in case save_assistant_message env rq response_text s of
                            Inl (tr2, s2, e) \<Rightarrow>
                              (Inl (HTTPException 500 e),
                               tr @ [Invoke (api_params rq cfg)] @ tr2, persisted s2)
                          | Inr (tr2, s2) \<Rightarrow>
                              (Inr \<lparr>cr_message = response_text, cr_timestamp = reply_now env\<rparr>,
                               tr @ [Invoke (api_params rq cfg)] @ tr2, persisted s2)))))"

section \<open>Streaming chat (process_streaming_chat)\<close>

text \<open>
  The loop of lines 629 to 642 over the fragments the stream yields, from the accumulated
  text and the count so far: each fragment is appended and sent as a chunk with the text
  accumulated; for the Opus model every tenth chunk is followed by a sleep of 10 ms. The
  result is the effects, the text and the count at the end.
\<close>

fun stream_loop :: "string \<Rightarrow> string \<Rightarrow> nat \<Rightarrow> string list \<Rightarrow> event list \<times> string \<times> nat" where
  "stream_loop model full_response chunk_count [] = ([], full_response, chunk_count)"
| "stream_loop model full_response chunk_count (text # rest) =
     (let full_response' = full_response @ text;
          chunk_count' = chunk_count + 1;
          sent = Send (Chunk text full_response')
                 # (if model = ''claude-opus-4-20250514'' \<and> chunk_count' mod 10 = 0
                    then [Sleep 10] else []);
          (later, final_response, final_count) = stream_loop model full_response' chunk_count' rest
      in (sent @ later, final_response, final_count))"

text \<open>
  \<^verbatim>\<open>process_streaming_chat\<close>: the effects of one turn on the connection, and the store
  afterwards. An exception of the stream, and one raised after the stream has ended (the
  query for the conversation row), is caught by the clauses of lines 679 to 689; an
  exception raised before the stream is opened leaves through \<^verbatim>\<open>finally\<close> and is reported
  by the clause of lines 697 to 699. The session is closed in \<^verbatim>\<open>finally\<close>; what was pending
  and not committed is not written.
\<close>

definition process_streaming_chat :: "turn_env \<Rightarrow> ws_data \<Rightarrow> store \<Rightarrow> event list \<times> store" where
  "process_streaming_chat env data db =
     (if \<not> client_ready env then ([Send (Error ''Claude client not initialized'')], db)
      else
        let rq = extract_request data
        in case save_user_message env rq (get_db_session db) of
             Inl (tr, s, e) \<Rightarrow> (tr @ [DbClose, Send (Error e)], persisted s)
           | Inr (tr, s) \<Rightarrow>
               (case get_model_config (rq_model rq) of
                  Inl (KeyError k) \<Rightarrow> (tr @ [DbClose, Send (Error k)], persisted s)
                | Inr cfg \<Rightarrow>
                    (let opening = tr @ [Send (Status (''Processing with '' @ name cfg @ ''...'')),
                                         Invoke (api_params rq cfg)];
                         (fragments, failure) = upstream_of env (api_params rq cfg);
                         (chunks, full_response, chunk_count) =
                            stream_loop (rq_model rq) [] 0 fragments
                     in case failure of
                          Some (TimeoutError e) \<Rightarrow>
                            (opening @ chunks
                             @ [Send (Error (''Request timed out for '' @ name cfg
                                             @ ''. Please try again.'')), DbClose],
                             persisted s)
                        | Some (UpstreamError e) \<Rightarrow>
                            (opening @ chunks
                             @ [Send (Error (''Streaming error with '' @ name cfg @ '': '' @ e)),
                                DbClose],
                             persisted s)
                        | None \<Rightarrow>
                            (case save_assistant_message env rq full_response s of
                               Inr (tr2, s2) \<Rightarrow>
                                 (opening @ chunks
                                  @ [Send (Complete full_response (reply_now env))] @ tr2
                                  @ [DbClose],
                                  persisted s2)
                             | Inl (tr2, s2, e) \<Rightarrow>
                                 (opening @ chunks
                                  @ [Send (Complete full_response (reply_now env))] @ tr2
                                  @ [Send (Error (''Streaming error with '' @ name cfg @ '': ''
                                                  @ e)),
                                     DbClose],
                                  persisted s2)))))"

section \<open>Observations on the effects of a handler\<close>

text \<open>The notifications the client receives, in order.\<close>

fun notifications :: "event list \<Rightarrow> notification list" where
  "notifications [] = []"
| "notifications (Send n # es) = n # notifications es"
| "notifications (e # es) = notifications es"

fun is_chunk :: "notification \<Rightarrow> bool" where
  "is_chunk (Chunk c f) = True"
| "is_chunk n = False"

fun is_complete :: "notification \<Rightarrow> bool" where
  "is_complete (Complete m t) = True"
| "is_complete n = False"

fun is_error :: "notification \<Rightarrow> bool" where
  "is_error (Error m) = True"
| "is_error n = False"

fun is_invoke :: "event \<Rightarrow> bool" where
  "is_invoke (Invoke p) = True"
| "is_invoke e = False"

fun is_sleep :: "event \<Rightarrow> bool" where
  "is_sleep (Sleep d) = True"
| "is_sleep e = False"

text \<open>
  For each chunk sent, in order, whether the effect right after it is a sleep.
\<close>

fun paused_after :: "event list \<Rightarrow> bool list" where
  "paused_after [] = []"
| "paused_after (Send (Chunk c f) # Sleep d # es) = True # paused_after es"
| "paused_after (Send (Chunk c f) # es) = False # paused_after es"
| "paused_after (e # es) = paused_after es"

text \<open>An effect is quiet when it is neither a chunk sent nor a sleep.\<close>
fun quiet :: "event \<Rightarrow> bool" where
  "quiet (Send (Chunk c f)) = False"
| "quiet (Sleep d) = False"
| "quiet e = True"

text \<open>The i-th chunk (counting from 0) of a stream of fragments.\<close>

definition chunk_of :: "string list \<Rightarrow> nat \<Rightarrow> notification" where
  "chunk_of fragments i = Chunk (fragments ! i) (concat (take (Suc i) fragments))"

text \<open>The assistant messages of a store.\<close>

definition assistant_messages :: "store \<Rightarrow> message list" where
  "assistant_messages db = filter (\<lambda>m. m_role m = ''assistant'') (messages db)"


section \<open>Example data\<close>

definition greeting :: conversation where
  "greeting = \<lparr>c_id = ''c1'', c_title = ''Hello'', c_created_at = 1, c_updated_at = 1\<rparr>"

definition hello_store :: store where
  "hello_store = \<lparr>conversations = [greeting], messages = []\<rparr>"

definition hello_data :: ws_data where
  "hello_data =
     \<lparr>ws_message = Some ''hi'', ws_conversation_history = None, ws_model = None,
      ws_temperature = None, ws_enable_thinking = None, ws_enable_web_search = None,
      ws_conversation_id = Some ''c1''\<rparr>"

definition hello_env :: turn_env where
  "hello_env =
     \<lparr>client_ready = True, upstream_of = (\<lambda>p. ([''Hel'', ''lo''], None)),
      user_commit_fault = None, lookup_fault = None, assistant_commit_fault = None,
      user_message_id = ''m1'', assistant_message_id = ''m2'',
      user_created_at = 2, assistant_created_at = 4, updated_now = 3, reply_now = 5\<rparr>"

definition sonnet :: model_config where
  "sonnet =
     \<lparr>name = ''Claude 4 Sonnet'', max_tokens = 64000, supports_thinking = True,
      context_window = 200000,
      description = ''High-performance model with exceptional reasoning capabilities''\<rparr>"

definition other_data :: ws_data where
  "other_data = hello_data\<lparr>ws_model := Some ''gpt-4''\<rparr>"







section \<open>Model registry: lookup\<close>

lemma registry_keys:
  "fst ` set CLAUDE_MODELS = {''claude-sonnet-4-20250514'', ''claude-opus-4-20250514''}"
  by (simp add: CLAUDE_MODELS_def insert_commute)

lemma default_entry:
  "map_of CLAUDE_MODELS ''claude-sonnet-4-20250514'' =
     Some \<lparr>name = ''Claude 4 Sonnet'', max_tokens = 64000, supports_thinking = True,
           context_window = 200000,
           description = ''High-performance model with exceptional reasoning capabilities''\<rparr>"
  by (simp add: CLAUDE_MODELS_def)

lemma unknown_entry:
  "model \<notin> fst ` set CLAUDE_MODELS \<Longrightarrow> map_of CLAUDE_MODELS model = None"
  by (simp add: map_of_eq_None_iff)

text \<open>
  C9. For every model identifier string the registry lookup returns a descriptor and never
  an error; for an identifier that is not registered the descriptor returned is the one of
  the default model \<^verbatim>\<open>claude-sonnet-4-20250514\<close> (64000 output tokens, thinking supported).
\<close>

theorem lookup_never_fails:
  "(\<exists>cfg. get_model_config model = Inr cfg) \<and>
   (model \<notin> fst ` set CLAUDE_MODELS \<longrightarrow>
      get_model_config model = get_model_config ''claude-sonnet-4-20250514'' \<and>
      (\<exists>cfg. get_model_config model = Inr cfg \<and> name cfg = ''Claude 4 Sonnet'' \<and>
             max_tokens cfg = 64000 \<and> supports_thinking cfg))"
proof (intro conjI impI)
  show "\<exists>cfg. get_model_config model = Inr cfg"
    by (simp add: get_model_config_def default_entry)
next
  assume "model \<notin> fst ` set CLAUDE_MODELS"
  then have none: "map_of CLAUDE_MODELS model = None"
    by (rule unknown_entry)
  show "get_model_config model = get_model_config ''claude-sonnet-4-20250514''"
    by (simp add: get_model_config_def default_entry none)
  show "\<exists>cfg. get_model_config model = Inr cfg \<and> name cfg = ''Claude 4 Sonnet'' \<and>
          max_tokens cfg = 64000 \<and> supports_thinking cfg"
    by (simp add: get_model_config_def default_entry none)
qed

theorem lookup_never_fails_witness:
  "''gpt-4'' \<notin> fst ` set CLAUDE_MODELS \<and>
   (\<exists>cfg. get_model_config ''gpt-4'' = Inr cfg \<and> name cfg = ''Claude 4 Sonnet'' \<and>
          max_tokens cfg = 64000 \<and> supports_thinking cfg)"
proof -
  have unk: "''gpt-4'' \<notin> fst ` set CLAUDE_MODELS"
    by (simp add: registry_keys)
  from lookup_never_fails [of "''gpt-4''"] unk show ?thesis
    by blast
qed

section \<open>The streaming loop\<close>

lemma stream_loop_step:
  "stream_loop model acc cnt (t # rest) =
     (Send (Chunk t (acc @ t))
        # (if model = ''claude-opus-4-20250514'' \<and> Suc cnt mod 10 = 0 then [Sleep 10] else [])
        @ fst (stream_loop model (acc @ t) (Suc cnt) rest),
      fst (snd (stream_loop model (acc @ t) (Suc cnt) rest)),
      snd (snd (stream_loop model (acc @ t) (Suc cnt) rest)))"
  by (simp add: Let_def case_prod_beta)

lemma stream_loop_text:
  "fst (snd (stream_loop model acc cnt frags)) = acc @ concat frags"
  by (induction frags arbitrary: acc cnt) (simp_all add: stream_loop_step del: stream_loop.simps(2))

lemma stream_loop_count:
  "snd (snd (stream_loop model acc cnt frags)) = cnt + length frags"
  by (induction frags arbitrary: acc cnt) (simp_all add: stream_loop_step del: stream_loop.simps(2))

lemma notifications_append:
  "notifications (xs @ ys) = notifications xs @ notifications ys"
  by (induction xs rule: notifications.induct) auto

lemma upt_0_Suc_map: "[0..<Suc n] = 0 # map Suc [0..<n]"
  by (simp add: upt_conv_Cons map_Suc_upt del: upt_Suc)

lemma stream_loop_notifications:
  "notifications (fst (stream_loop model acc cnt frags)) =
     map (\<lambda>i. Chunk (frags ! i) (acc @ concat (take (Suc i) frags))) [0..<length frags]"
proof (induction frags arbitrary: acc cnt)
  case Nil
  show ?case by simp
next
  case (Cons frag rest)
  have "map (\<lambda>i. Chunk ((frag # rest) ! i) (acc @ concat (take (Suc i) (frag # rest))))
          [0..<length (frag # rest)] =
        Chunk frag (acc @ frag) #
        map (\<lambda>i. Chunk (rest ! i) ((acc @ frag) @ concat (take (Suc i) rest))) [0..<length rest]"
    by (simp add: upt_0_Suc_map comp_def del: upt_Suc)
  then show ?case
    using Cons.IH [of "acc @ frag" "Suc cnt"]
    by (auto simp add: stream_loop_step simp del: stream_loop.simps(2) upt_Suc)
qed

lemma tenth_step:
  "Suc cnt mod 10 = 0 \<Longrightarrow> (Suc cnt + n) div 10 - cnt div 10 = Suc ((Suc cnt + n) div 10 - Suc cnt div 10)"
proof -
  assume a: "Suc cnt mod 10 = 0"
  then have b: "Suc cnt div 10 = Suc (cnt div 10)"
    by (simp add: div_Suc)
  have "Suc cnt div 10 \<le> (Suc cnt + n) div 10"
    by (rule div_le_mono) simp
  with b show ?thesis by linarith
qed

lemma other_step:
  "Suc cnt mod 10 \<noteq> 0 \<Longrightarrow> (Suc cnt + n) div 10 - cnt div 10 = (Suc cnt + n) div 10 - Suc cnt div 10"
  by (simp add: div_Suc)

lemma stream_loop_sleeps:
  "filter is_sleep (fst (stream_loop model acc cnt frags)) =
     (if model = ''claude-opus-4-20250514''
      then replicate ((cnt + length frags) div 10 - cnt div 10) (Sleep 10) else [])"
proof (induction frags arbitrary: acc cnt)
  case Nil
  show ?case by simp
next
  case (Cons frag rest)
  show ?case
  proof (cases "model = ''claude-opus-4-20250514'' \<and> Suc cnt mod 10 = 0")
    case True
    then show ?thesis
      using Cons.IH [of "acc @ frag" "Suc cnt"] tenth_step [of cnt "length rest"]
      by (simp add: stream_loop_step del: stream_loop.simps(2))
  next
    case False
    then show ?thesis
      using Cons.IH [of "acc @ frag" "Suc cnt"] other_step [of cnt "length rest"]
      by (auto simp add: stream_loop_step simp del: stream_loop.simps(2))
  qed
qed

lemma paused_after_other:
  "\<not> is_chunk n \<Longrightarrow> paused_after (Send n # es) = paused_after es"
  by (cases n) simp_all

lemma paused_after_chunk_plain:
  "es = [] \<or> \<not> is_sleep (hd es) \<Longrightarrow>
   paused_after (Send (Chunk c f) # es) = False # paused_after es"
proof (cases es)
  case Nil
  then show ?thesis by simp
next
  case (Cons e rest)
  assume "es = [] \<or> \<not> is_sleep (hd es)"
  with Cons have "\<not> is_sleep e" by simp
  with Cons show ?thesis by (cases e) simp_all
qed

lemma stream_loop_head:
  "post = [] \<or> \<not> is_sleep (hd post) \<Longrightarrow>
   fst (stream_loop model acc cnt frags) @ post = [] \<or>
   \<not> is_sleep (hd (fst (stream_loop model acc cnt frags) @ post))"
  by (cases frags) (simp_all add: stream_loop_step del: stream_loop.simps(2))

lemma upt_Suc_Suc_map: "[Suc m..<Suc n] = map Suc [m..<n]"
  by (simp add: map_Suc_upt del: upt_Suc)

lemma stream_loop_paused:
  assumes "post = [] \<or> \<not> is_sleep (hd post)"
  shows "paused_after (fst (stream_loop model acc cnt frags) @ post) =
           map (\<lambda>k. model = ''claude-opus-4-20250514'' \<and> k mod 10 = 0)
               [Suc cnt..<Suc (cnt + length frags)]
           @ paused_after post"
proof (induction frags arbitrary: acc cnt)
  case Nil
  show ?case by simp
next
  case (Cons frag rest)
  have range: "[Suc cnt..<Suc (Suc (cnt + length rest))] =
               Suc cnt # [Suc (Suc cnt)..<Suc (Suc (cnt + length rest))]"
    by (simp add: upt_conv_Cons del: upt_Suc)
  note IH = Cons.IH [of "acc @ frag" "Suc cnt"]
  note hd = stream_loop_head [OF assms, of model "acc @ frag" "Suc cnt" rest]
  show ?case
  proof (cases "model = ''claude-opus-4-20250514'' \<and> Suc cnt mod 10 = 0")
    case True
    then show ?thesis
      using IH by (simp add: stream_loop_step range del: stream_loop.simps(2) upt_Suc)
  next
    case False
    then show ?thesis
      using IH paused_after_chunk_plain [OF hd, of frag "acc @ frag"]
      by (auto simp add: stream_loop_step range simp del: stream_loop.simps(2) upt_Suc)
  qed
qed

lemma get_model_config_total: "\<exists>cfg. get_model_config model = Inr cfg"
  by (simp add: get_model_config_def CLAUDE_MODELS_def)

lemma quiet_paused_after: "list_all quiet pre \<Longrightarrow> paused_after (pre @ es) = paused_after es"
proof (induction pre)
  case Nil
  show ?case by simp
next
  case (Cons e pre)
  then have "quiet e" by simp
  then have "paused_after (e # (pre @ es)) = paused_after (pre @ es)"
    by (cases e rule: quiet.cases) simp_all
  with Cons show ?case by simp
qed

lemma quiet_no_sleep: "list_all quiet es \<Longrightarrow> filter is_sleep es = []"
proof (induction es)
  case Nil
  show ?case by simp
next
  case (Cons e es)
  then have "quiet e" by simp
  then have "\<not> is_sleep e" by (cases e rule: quiet.cases) simp_all
  with Cons show ?case by simp
qed

lemma quiet_no_chunk: "list_all quiet es \<Longrightarrow> filter is_chunk (notifications es) = []"
proof (induction es)
  case Nil
  show ?case by simp
next
  case (Cons e es)
  then have "quiet e" by simp
  then have "filter is_chunk (notifications (e # es)) = filter is_chunk (notifications es)"
    by (cases e rule: quiet.cases) simp_all
  with Cons show ?case by simp
qed

lemma quiet_head: "list_all quiet es \<Longrightarrow> es = [] \<or> \<not> is_sleep (hd es)"
  by (cases es; cases "hd es" rule: quiet.cases) auto

lemma save_user_message_quiet:
  "save_user_message env rq s = Inr (tr, s') \<Longrightarrow> list_all quiet tr"
  by (auto simp: save_user_message_def Let_def split: if_splits sum.splits)

lemma save_user_message_quiet_failed:
  "save_user_message env rq s = Inl (tr, s', e) \<Longrightarrow> list_all quiet tr"
  by (auto simp: save_user_message_def Let_def split: if_splits sum.splits)

lemma save_assistant_message_quiet:
  "save_assistant_message env rq response s = Inr (tr, s') \<Longrightarrow> list_all quiet tr"
  by (auto simp: save_assistant_message_def Let_def split: if_splits sum.splits option.splits)

lemma save_assistant_message_quiet_failed:
  "save_assistant_message env rq response s = Inl (tr, s', e) \<Longrightarrow> list_all quiet tr"
  by (auto simp: save_assistant_message_def Let_def split: if_splits sum.splits option.splits)

lemma streaming_trace_shape:
  "\<exists>pre frags post.
     fst (process_streaming_chat env data db) =
       pre @ fst (stream_loop (rq_model (extract_request data)) [] 0 frags) @ post \<and>
     list_all quiet pre \<and> list_all quiet post"
proof (cases "client_ready env")
  case False
  then have "fst (process_streaming_chat env data db) =
      [Send (Error ''Claude client not initialized'')]
      @ fst (stream_loop (rq_model (extract_request data)) [] 0 []) @ []"
    by (simp add: process_streaming_chat_def)
  moreover have "list_all quiet [Send (Error ''Claude client not initialized'')]" by simp
  moreover have "list_all quiet []" by simp
  ultimately show ?thesis by blast
next
  case True
  define rq where "rq = extract_request data"
  show ?thesis
  proof (cases "save_user_message env rq (get_db_session db)")
    case (Inl failed)
    obtain tr s e where failed: "failed = (tr, s, e)" by (cases failed) auto
    have "fst (process_streaming_chat env data db) =
        (tr @ [DbClose, Send (Error e)]) @ fst (stream_loop (rq_model rq) [] 0 []) @ []"
      using True Inl failed by (simp add: process_streaming_chat_def rq_def)
    moreover have "list_all quiet (tr @ [DbClose, Send (Error e)])"
      using save_user_message_quiet_failed Inl failed by fastforce
    moreover have "list_all quiet []" by simp
    ultimately show ?thesis unfolding rq_def by blast
  next
    case (Inr saved)
    obtain tr s where saved: "saved = (tr, s)" by (cases saved) auto
    have tr: "list_all quiet tr"
      using save_user_message_quiet Inr saved by fastforce
    obtain cfg where cfg: "get_model_config (rq_model rq) = Inr cfg"
      using get_model_config_total by blast
    obtain frags failure where up: "upstream_of env (api_params rq cfg) = (frags, failure)"
      by (cases "upstream_of env (api_params rq cfg)") auto
    define pre where "pre = tr @ [Send (Status (''Processing with '' @ name cfg @ ''...'')),
                                  Invoke (api_params rq cfg)]"
    have pre: "list_all quiet pre" using tr by (simp add: pre_def)
    have "\<exists>post. fst (process_streaming_chat env data db) =
              pre @ fst (stream_loop (rq_model rq) [] 0 frags) @ post \<and> list_all quiet post"
    proof (cases failure)
      case None
      define full where "full = fst (snd (stream_loop (rq_model rq) [] 0 frags))"
      show ?thesis
      proof (cases "save_assistant_message env rq full s")
        case (Inr kept)
        obtain tr2 s2 where kept: "kept = (tr2, s2)" by (cases kept) auto
        have "fst (process_streaming_chat env data db) =
                pre @ fst (stream_loop (rq_model rq) [] 0 frags)
                @ ([Send (Complete full (reply_now env))] @ tr2 @ [DbClose])"
          using True \<open>save_user_message env rq (get_db_session db) = Inr saved\<close> saved cfg up
            None Inr kept
          by (simp add: process_streaming_chat_def rq_def [symmetric] pre_def case_prod_beta
              Let_def full_def)
        moreover have "list_all quiet ([Send (Complete full (reply_now env))] @ tr2 @ [DbClose])"
          using save_assistant_message_quiet Inr kept by fastforce
        ultimately show ?thesis by blast
      next
        case (Inl lost)
        obtain tr2 s2 e where lost: "lost = (tr2, s2, e)" by (cases lost) auto
        have "fst (process_streaming_chat env data db) =
                pre @ fst (stream_loop (rq_model rq) [] 0 frags)
                @ ([Send (Complete full (reply_now env))] @ tr2
                   @ [Send (Error (''Streaming error with '' @ name cfg @ '': '' @ e)), DbClose])"
          using True \<open>save_user_message env rq (get_db_session db) = Inr saved\<close> saved cfg up
            None Inl lost
          by (simp add: process_streaming_chat_def rq_def [symmetric] pre_def case_prod_beta
              Let_def full_def)
        moreover have "list_all quiet ([Send (Complete full (reply_now env))] @ tr2
                   @ [Send (Error (''Streaming error with '' @ name cfg @ '': '' @ e)), DbClose])"
          using save_assistant_message_quiet_failed Inl lost by fastforce
        ultimately show ?thesis by blast
      qed
    next
      case (Some err)
      then show ?thesis
        using True Inr saved cfg up
        by (cases err)
           (simp_all add: process_streaming_chat_def rq_def [symmetric] pre_def case_prod_beta Let_def)
    qed
    then show ?thesis using pre unfolding rq_def by blast
  qed
qed

lemma stream_loop_chunks:
  "length (filter is_chunk (notifications (fst (stream_loop model acc cnt frags)))) = length frags"
  by (simp add: stream_loop_notifications)

section \<open>Pacing of the streaming loop\<close>

text \<open>
  C8. In the effects of any streaming turn, the k-th chunk sent is directly followed by a
  sleep exactly when the requested model is \<^verbatim>\<open>claude-opus-4-20250514\<close> and k is a
  multiple of 10. These are all the sleeps of the turn, each of the same 10 ms: for that
  model one per full ten chunks, for every other model none.
\<close>

theorem pause_after_every_tenth_chunk:
  "paused_after (fst (process_streaming_chat env data db)) =
     map (\<lambda>k. rq_model (extract_request data) = ''claude-opus-4-20250514'' \<and> k mod 10 = 0)
         [1..<Suc (length (filter is_chunk
                             (notifications (fst (process_streaming_chat env data db)))))] \<and>
   filter is_sleep (fst (process_streaming_chat env data db)) =
     (if rq_model (extract_request data) = ''claude-opus-4-20250514''
      then replicate
             (length (filter is_chunk
                        (notifications (fst (process_streaming_chat env data db)))) div 10)
             (Sleep 10)
      else [])"
proof -
  define model where "model = rq_model (extract_request data)"
  obtain pre frags post where
    shape: "fst (process_streaming_chat env data db) =
              pre @ fst (stream_loop model [] 0 frags) @ post"
    and pre: "list_all quiet pre" and post: "list_all quiet post"
    using streaming_trace_shape [of env data db] unfolding model_def by blast
  have count: "length (filter is_chunk
                  (notifications (fst (process_streaming_chat env data db)))) = length frags"
    by (simp add: shape notifications_append quiet_no_chunk [OF pre] quiet_no_chunk [OF post]
        stream_loop_chunks)
  have "paused_after (fst (process_streaming_chat env data db)) =
          paused_after (fst (stream_loop model [] 0 frags) @ post)"
    by (simp add: shape quiet_paused_after [OF pre])
  also have "\<dots> = map (\<lambda>k. model = ''claude-opus-4-20250514'' \<and> k mod 10 = 0)
                      [Suc 0..<Suc (0 + length frags)] @ paused_after post"
    by (rule stream_loop_paused [OF quiet_head [OF post]])
  also have "paused_after post = []"
    using quiet_paused_after [OF post, of "[]"] by simp
  finally have first: "paused_after (fst (process_streaming_chat env data db)) =
      map (\<lambda>k. model = ''claude-opus-4-20250514'' \<and> k mod 10 = 0) [1..<Suc (length frags)]"
    by simp
  have second: "filter is_sleep (fst (process_streaming_chat env data db)) =
      (if model = ''claude-opus-4-20250514'' then replicate (length frags div 10) (Sleep 10)
       else [])"
    using stream_loop_sleeps [of model "[]" 0 frags]
    by (simp add: shape quiet_no_sleep [OF pre] quiet_no_sleep [OF post])
  show ?thesis
    using first second by (simp only: count model_def)
qed

section \<open>Search\<close>

lemma filter_dropWhile_other:
  "filter (\<lambda>x. \<not> P x) (dropWhile P xs) = filter (\<lambda>x. \<not> P x) xs"
  by (induction xs) auto

lemma last_dropWhile_kept:
  "dropWhile P xs \<noteq> [] \<Longrightarrow> last (dropWhile P xs) = last xs"
  by (induction xs) (auto split: if_splits)

lemma two_ends_counted:
  assumes "2 \<le> length xs" and "P (hd xs)" and "P (last xs)"
  shows "2 \<le> length (filter P xs)"
proof -
  obtain x ys where xs: "xs = x # ys" and ys: "ys \<noteq> []"
    using assms(1) by (cases xs) fastforce+
  have "last ys \<in> set ys" using ys by simp
  moreover have "P (last ys)" using assms(3) xs ys by simp
  ultimately have "filter P ys \<noteq> []"
    by (metis empty_filter_conv)
  then have "1 \<le> length (filter P ys)"
    by (cases "filter P ys") auto
  with assms(2) xs show ?thesis by simp
qed

lemma strip_keeps_non_whitespace:
  "filter (\<lambda>c. \<not> isspace c) (strip q) = filter (\<lambda>c. \<not> isspace c) q"
proof -
  have "filter (\<lambda>c. \<not> isspace c) (strip q) =
        rev (filter (\<lambda>c. \<not> isspace c) (dropWhile isspace (rev (dropWhile isspace q))))"
    by (simp add: strip_def rev_filter)
  also have "\<dots> = rev (filter (\<lambda>c. \<not> isspace c) (rev (dropWhile isspace q)))"
    by (simp only: filter_dropWhile_other)
  also have "\<dots> = filter (\<lambda>c. \<not> isspace c) (dropWhile isspace q)"
    by (simp add: rev_filter)
  finally show ?thesis by (simp only: filter_dropWhile_other)
qed

lemma strip_ends:
  assumes "strip q \<noteq> []"
  shows "\<not> isspace (hd (strip q))" and "\<not> isspace (last (strip q))"
proof -
  define t where "t = dropWhile isspace q"
  define u where "u = dropWhile isspace (rev t)"
  have strip: "strip q = rev u" by (simp add: strip_def t_def u_def)
  with assms have u: "u \<noteq> []" by simp
  then have t: "t \<noteq> []" by (auto simp: u_def)
  have "last u = last (rev t)"
    using u unfolding u_def by (rule last_dropWhile_kept)
  then have "last u = hd t" using t by (simp add: last_rev)
  moreover have "\<not> isspace (hd t)"
    using t unfolding t_def by (rule hd_dropWhile)
  ultimately show "\<not> isspace (hd (strip q))"
    using u by (simp add: strip hd_rev)
  have "\<not> isspace (hd u)"
    using u unfolding u_def by (rule hd_dropWhile)
  then show "\<not> isspace (last (strip q))"
    using u by (simp add: strip last_rev)
qed

lemma strip_short:
  assumes "length (filter (\<lambda>c. \<not> isspace c) q) < 2"
  shows "length (strip q) < 2"
proof (rule ccontr)
  assume "\<not> length (strip q) < 2"
  then have long: "2 \<le> length (strip q)" by simp
  then have "strip q \<noteq> []" by auto
  from two_ends_counted [OF long strip_ends [OF this]]
  have "2 \<le> length (filter (\<lambda>c. \<not> isspace c) q)"
    by (simp only: strip_keeps_non_whitespace)
  with assms show False by simp
qed

text \<open>
  C6. A query with fewer than 2 non-whitespace characters (the empty string included) gets
  the empty result and no error, whether or not the store is available: the handler
  returns before it queries the store.
\<close>

theorem short_query_empty:
  "length (filter (\<lambda>c. \<not> isspace c) q) < 2 \<Longrightarrow> search_conversations available q db = Inr []"
  using strip_short [of q] by (simp add: search_conversations_def)

theorem short_query_empty_witness:
  "length (filter (\<lambda>c. \<not> isspace c) '' a '') < 2 \<and>
   search_conversations False '' a ''
     \<lparr>conversations = [\<lparr>c_id = ''c1'', c_title = ''a'', c_created_at = 1, c_updated_at = 1\<rparr>],
      messages = []\<rparr> = Inr []"
proof -
  have short: "length (filter (\<lambda>c. \<not> isspace c) '' a '') < 2"
    by (simp add: isspace_def)
  from short_query_empty [OF short] short show ?thesis by simp
qed

text \<open>
  C5, at the query \<^verbatim>\<open>__\<close> on a store holding one conversation titled \<^verbatim>\<open>Hello\<close> and no
  message: the search returns that conversation, although neither its title nor any
  message of it contains \<^verbatim>\<open>__\<close>. The query is put into the ILIKE pattern as it is, so
  its two characters are read as wildcards.
\<close>

theorem wildcard_query_overmatches:
  "search_conversations True ''__'' \<lparr>conversations = [greeting], messages = []\<rparr> = Inr [greeting] \<and>
   \<not> sublist (lower ''__'') (lower (c_title greeting))"
  by code_simp

section \<open>The store session: lemmas\<close>

lemma map_id_update_first:
  "(\<And>c. c_id (f c) = c_id c) \<Longrightarrow> map c_id (update_first cid f cs) = map c_id cs"
  by (induction cs) auto

lemma ids_update_first:
  "(\<And>c. c_id (f c) = c_id c) \<Longrightarrow> c_id ` set (update_first cid f cs) = c_id ` set cs"
  by (induction cs) auto

lemma find_update_first:
  "(\<And>c. c_id (f c) = c_id c) \<Longrightarrow>
   find_conversation cid (update_first cid f cs) = map_option f (find_conversation cid cs)"
  by (induction cs) (auto simp: find_conversation_def)

lemma find_conversation_Some_iff:
  "(\<exists>c. find_conversation cid cs = Some c) = (cid \<in> set (map c_id cs))"
  by (induction cs) (auto simp: find_conversation_def)

lemma update_first_absent:
  "cid \<notin> set (map c_id cs) \<Longrightarrow> update_first cid f cs = cs"
  by (induction cs) auto

text \<open>Values that fit their columns are written as they are.\<close>

lemma fit_short: "length v \<le> n \<Longrightarrow> fit n v = Some v"
  by (simp add: fit_def)

lemma fit_length: "fit n v = Some kept \<Longrightarrow> length kept \<le> n"
  by (auto simp: fit_def split: if_splits)

lemma write_rows_same: "those (write_rows cs cs) = Some cs"
  by (induction cs) simp_all

lemma write_rows_update:
  assumes "\<And>c. c_title (f c) = c_title c \<or> length (c_title (f c)) \<le> 255"
  shows "those (write_rows cs (update_first cid f cs)) = Some (update_first cid f cs)"
proof (induction cs)
  case Nil
  show ?case by simp
next
  case (Cons c cs)
  have "(if c_title (f c) = c_title c then Some (f c) else fit_conversation (f c)) = Some (f c)"
    using assms [of c] by (auto simp: fit_conversation_def fit_short)
  then show ?case
    using Cons by (simp add: write_rows_same)
qed

lemma as_stored_fields:
  "m_id (as_stored m) = m_id m"
  "m_conversation_id (as_stored m) = m_conversation_id m"
  "m_content (as_stored m) = m_content m"
  "m_thinking_enabled (as_stored m) = m_thinking_enabled m"
  "m_created_at (as_stored m) = m_created_at m"
  by (auto simp: as_stored_def fit_message_def split: option.splits)

lemma as_stored_role: "length (m_role m) \<le> 20 \<Longrightarrow> m_role (as_stored m) = m_role m"
  by (auto simp: as_stored_def fit_message_def fit_short split: option.splits)

lemma as_stored_model:
  "(case m_model m of None \<Rightarrow> True | Some x \<Rightarrow> length x \<le> 100) \<Longrightarrow>
   m_model (as_stored m) = m_model m"
  by (auto simp: as_stored_def fit_message_def fit_short split: option.splits)

lemma as_stored_same:
  "length (m_role m) \<le> 20 \<Longrightarrow> length (m_temperature m) \<le> 10 \<Longrightarrow>
   (case m_model m of None \<Rightarrow> True | Some x \<Rightarrow> length x \<le> 100) \<Longrightarrow> as_stored m = m"
  by (auto simp: as_stored_def fit_message_def fit_short split: option.splits)

lemma user_message_fit:
  "fit_message (user_message_of env rq) =
     (case fit 10 (rq_temperature rq) of
        None \<Rightarrow> None
      | Some t \<Rightarrow> Some ((user_message_of env rq)\<lparr>m_temperature := t\<rparr>))"
  by (simp add: fit_message_def user_message_of_def fit_short split: option.splits)

lemma assistant_message_fit:
  "fit_message (assistant_message_of env rq response) =
     (case fit 10 (rq_temperature rq) of
        None \<Rightarrow> None
      | Some t \<Rightarrow>
          (case fit 100 (rq_model rq) of
             None \<Rightarrow> None
           | Some y \<Rightarrow> Some ((assistant_message_of env rq response)
                               \<lparr>m_temperature := t, m_model := Some y\<rparr>)))"
  by (simp add: fit_message_def assistant_message_of_def fit_short split: option.splits)

text \<open>What the session looks like once the user message step has let the turn through.\<close>

lemma save_user_message_through:
  assumes "save_user_message env rq (get_db_session db) = Inr (tr, s)"
  shows "added s = []" and "rows s = conversations db"
    and "conversations (persisted s) = conversations db"
    and "truthy (rq_conversation_id rq) \<Longrightarrow>
           conversation_id_of (rq_conversation_id rq) \<in> set (map c_id (conversations db))"
    and "messages (persisted s) =
           messages db @ (if truthy (rq_conversation_id rq)
                          then [as_stored (user_message_of env rq)] else [])"
    and "tr = (if truthy (rq_conversation_id rq)
               then [DbAdd (user_message_of env rq), DbCommit True] else [])"
    and "truthy (rq_conversation_id rq) \<Longrightarrow> \<exists>t. fit 10 (rq_temperature rq) = Some t"
proof -
  show "tr = (if truthy (rq_conversation_id rq)
               then [DbAdd (user_message_of env rq), DbCommit True] else [])"
    using assms
    by (auto simp: save_user_message_def Let_def split: if_splits sum.splits)
  show "added s = []" "rows s = conversations db"
    "conversations (persisted s) = conversations db"
    "messages (persisted s) =
           messages db @ (if truthy (rq_conversation_id rq)
                          then [as_stored (user_message_of env rq)] else [])"
    using assms
    by (auto simp: save_user_message_def get_db_session_def db_add_def db_commit_def
        write_rows_same as_stored_def Let_def
        split: if_splits option.splits sum.splits)
  show "conversation_id_of (rq_conversation_id rq) \<in> set (map c_id (conversations db))"
    if "truthy (rq_conversation_id rq)"
    using assms that
    by (auto simp: save_user_message_def get_db_session_def db_add_def db_commit_def
        user_message_of_def Let_def split: if_splits option.splits sum.splits)
  show "\<exists>t. fit 10 (rq_temperature rq) = Some t" if "truthy (rq_conversation_id rq)"
    using assms that
    by (auto simp: save_user_message_def get_db_session_def db_add_def db_commit_def
        user_message_fit Let_def split: if_splits option.splits sum.splits)
qed

lemma save_user_message_raised:
  assumes "save_user_message env rq (get_db_session db) = Inl (tr, s, e)"
  shows "persisted s = db" and "truthy (rq_conversation_id rq)"
    and "tr = [DbAdd (user_message_of env rq), DbCommit False, DbRollback]"
    and "db_commit (user_commit_fault env) (db_add (user_message_of env rq) (get_db_session db)) = Inl e"
  using assms
  by (auto simp: save_user_message_def get_db_session_def db_add_def db_rollback_def
      Let_def split: if_splits sum.splits)

lemma save_user_message_fails:
  assumes "truthy (rq_conversation_id rq)"
    and "db_commit (user_commit_fault env) (db_add (user_message_of env rq) (get_db_session db)) = Inl e"
  shows "save_user_message env rq (get_db_session db) =
           Inl ([DbAdd (user_message_of env rq), DbCommit False, DbRollback], get_db_session db, e)"
  using assms
  by (simp add: save_user_message_def get_db_session_def db_add_def db_rollback_def Let_def)

lemma user_message_stored_role: "m_role (as_stored (user_message_of env rq)) = ''user''"
  by (simp add: as_stored_role user_message_of_def)

text \<open>The assistant message step after the user message step.\<close>

lemma save_assistant_message_skipped:
  "\<not> (truthy (rq_conversation_id rq) \<and> response \<noteq> []) \<Longrightarrow>
   save_assistant_message env rq response s = Inr ([], s)"
  by (auto simp add: save_assistant_message_def)

lemma save_assistant_message_lost:
  assumes "truthy (rq_conversation_id rq)" and "response \<noteq> []"
    and "lookup_fault env = Some e"
  shows "save_assistant_message env rq response s =
           Inl ([DbAdd (assistant_message_of env rq response), DbQuery False],
                db_add (assistant_message_of env rq response) s, e)"
  using assms by (simp add: save_assistant_message_def Let_def)

lemma save_assistant_message_stored:
  assumes "truthy (rq_conversation_id rq)" and "response \<noteq> []"
    and "lookup_fault env = None" and "assistant_commit_fault env = None"
    and "added s = []" and "rows s = conversations db"
    and "conversations (persisted s) = conversations db"
    and "conversation_id_of (rq_conversation_id rq) \<in> set (map c_id (conversations db))"
    and "fit_message (assistant_message_of env rq response) = Some kept"
  shows "save_assistant_message env rq response s =
           Inr ([DbAdd (assistant_message_of env rq response), DbQuery True, DbCommit True],
                s\<lparr>rows := update_first (conversation_id_of (rq_conversation_id rq))
                            (\<lambda>c. c\<lparr>c_updated_at := updated_now env\<rparr>) (conversations db),
                  persisted :=
                    \<lparr>conversations = update_first (conversation_id_of (rq_conversation_id rq))
                                       (\<lambda>c. c\<lparr>c_updated_at := updated_now env\<rparr>)
                                       (conversations db),
                     messages = messages (persisted s) @ [kept]\<rparr>,
                  added := []\<rparr>)"
proof -
  obtain c where c: "find_conversation (conversation_id_of (rq_conversation_id rq)) (conversations db) = Some c"
    using assms(8) find_conversation_Some_iff by blast
  have written: "those (write_rows (conversations db)
                   (update_first (conversation_id_of (rq_conversation_id rq))
                      (\<lambda>c. c\<lparr>c_updated_at := updated_now env\<rparr>) (conversations db))) =
                 Some (update_first (conversation_id_of (rq_conversation_id rq))
                      (\<lambda>c. c\<lparr>c_updated_at := updated_now env\<rparr>) (conversations db))"
    by (rule write_rows_update) simp
  have target: "m_conversation_id (assistant_message_of env rq response) =
                conversation_id_of (rq_conversation_id rq)"
    by (simp add: assistant_message_of_def)
  show ?thesis
    using assms(1-8) c
    by (simp add: save_assistant_message_def db_add_def db_commit_def Let_def
        ids_update_first target written assms(9))
qed

lemma save_assistant_message_refused:
  assumes "truthy (rq_conversation_id rq)" and "response \<noteq> []"
    and "lookup_fault env = None" and "assistant_commit_fault env = Some e"
    and "added s = []" and "rows s = conversations (persisted s)"
  shows "save_assistant_message env rq response s =
           Inr ([DbAdd (assistant_message_of env rq response), DbQuery True, DbCommit False,
                 DbRollback], s)"
  using assms
  by (cases s)
     (auto simp add: save_assistant_message_def db_add_def db_commit_def db_rollback_def Let_def
       split: option.splits)

section \<open>The streaming turn, case by case\<close>

lemma streaming_completes:
  assumes "client_ready env" and "rq = extract_request data"
    and "save_user_message env rq (get_db_session db) = Inr (tr, s)"
    and "get_model_config (rq_model rq) = Inr cfg"
    and "upstream_of env (api_params rq cfg) = (fragments, None)"
    and "save_assistant_message env rq (concat fragments) s = Inr (tr2, s2)"
  shows "process_streaming_chat env data db =
           (tr @ [Send (Status (''Processing with '' @ name cfg @ ''...'')),
                  Invoke (api_params rq cfg)]
            @ fst (stream_loop (rq_model rq) [] 0 fragments)
            @ [Send (Complete (concat fragments) (reply_now env))]
            @ tr2 @ [DbClose],
            persisted s2)"
proof -
  have acc: "fst (snd (stream_loop (rq_model rq) [] 0 fragments)) = concat fragments"
    by (simp add: stream_loop_text)
  show ?thesis
    using assms(1,3,4,5,6) acc
    by (simp add: process_streaming_chat_def assms(2) [symmetric] case_prod_beta Let_def)
qed

lemma streaming_lost:
  assumes "client_ready env" and "rq = extract_request data"
    and "save_user_message env rq (get_db_session db) = Inr (tr, s)"
    and "get_model_config (rq_model rq) = Inr cfg"
    and "upstream_of env (api_params rq cfg) = (fragments, None)"
    and "save_assistant_message env rq (concat fragments) s = Inl (tr2, s2, e)"
  shows "process_streaming_chat env data db =
           (tr @ [Send (Status (''Processing with '' @ name cfg @ ''...'')),
                  Invoke (api_params rq cfg)]
            @ fst (stream_loop (rq_model rq) [] 0 fragments)
            @ [Send (Complete (concat fragments) (reply_now env))]
            @ tr2 @ [Send (Error (''Streaming error with '' @ name cfg @ '': '' @ e)), DbClose],
            persisted s2)"
proof -
  have acc: "fst (snd (stream_loop (rq_model rq) [] 0 fragments)) = concat fragments"
    by (simp add: stream_loop_text)
  show ?thesis
    using assms(1,3,4,5,6) acc
    by (simp add: process_streaming_chat_def assms(2) [symmetric] case_prod_beta Let_def)
qed

lemma streaming_fails:
  assumes "client_ready env" and "rq = extract_request data"
    and "save_user_message env rq (get_db_session db) = Inr (tr, s)"
    and "get_model_config (rq_model rq) = Inr cfg"
    and "upstream_of env (api_params rq cfg) = (fragments, Some err)"
  shows "process_streaming_chat env data db =
           (tr @ [Send (Status (''Processing with '' @ name cfg @ ''...'')),
                  Invoke (api_params rq cfg)]
            @ fst (stream_loop (rq_model rq) [] 0 fragments)
            @ [Send (Error (case err of
                              TimeoutError e \<Rightarrow>
                                ''Request timed out for '' @ name cfg @ ''. Please try again.''
                            | UpstreamError e \<Rightarrow>
                                ''Streaming error with '' @ name cfg @ '': '' @ e)),
               DbClose],
            persisted s)"
  using assms(1,3,4,5)
  by (cases err)
     (simp_all add: process_streaming_chat_def assms(2) [symmetric] case_prod_beta Let_def)

lemma streaming_refused:
  assumes "client_ready env" and "rq = extract_request data"
    and "save_user_message env rq (get_db_session db) = Inl (tr, s, e)"
  shows "process_streaming_chat env data db = (tr @ [DbClose, Send (Error e)], persisted s)"
  using assms(1,3)
  by (simp add: process_streaming_chat_def assms(2) [symmetric])

lemma loop_notifications_chunks:
  "notifications (fst (stream_loop model [] 0 fragments)) =
     map (chunk_of fragments) [0..<length fragments]"
  by (simp add: stream_loop_notifications chunk_of_def)

lemma quiet_notifications_db:
  "save_assistant_message env rq response s = Inr (tr2, s2) \<Longrightarrow> notifications tr2 = []"
  by (auto simp: save_assistant_message_def Let_def split: if_splits sum.splits option.splits)

lemma quiet_notifications_lost:
  "save_assistant_message env rq response s = Inl (tr2, s2, e) \<Longrightarrow> notifications tr2 = []"
  by (auto simp: save_assistant_message_def Let_def split: if_splits sum.splits option.splits)

lemma user_trace_notifications:
  "save_user_message env rq s0 = Inr (tr, s) \<Longrightarrow> notifications tr = []"
  by (auto simp: save_user_message_def Let_def split: if_splits sum.splits)

text \<open>
  C2. When the turn reaches the upstream and the stream raises after yielding k fragments,
  the client receives the status notification, then exactly k chunk notifications (the
  i-th with the i-th fragment and the text so far), then exactly one error notification;
  no complete notification is sent, and the assistant messages of the store are the ones
  it held before the turn.
\<close>

theorem stream_error_ends_turn:
  assumes "client_ready env" and "rq = extract_request data"
    and "save_user_message env rq (get_db_session db) = Inr (tr, s)"
    and "get_model_config (rq_model rq) = Inr cfg"
    and "upstream_of env (api_params rq cfg) = (fragments, Some err)"
  shows "(\<exists>msg. notifications (fst (process_streaming_chat env data db)) =
            Status (''Processing with '' @ name cfg @ ''...'')
            # map (chunk_of fragments) [0..<length fragments] @ [Error msg]) \<and>
         filter is_complete (notifications (fst (process_streaming_chat env data db))) = [] \<and>
         length (filter is_chunk (notifications (fst (process_streaming_chat env data db)))) =
           length fragments \<and>
         length (filter is_error (notifications (fst (process_streaming_chat env data db)))) = 1 \<and>
         assistant_messages (snd (process_streaming_chat env data db)) = assistant_messages db"
proof -
  note shape = streaming_fails [OF assms]
  have sent: "notifications (fst (process_streaming_chat env data db)) =
      Status (''Processing with '' @ name cfg @ ''...'')
      # map (chunk_of fragments) [0..<length fragments]
      @ [Error (case err of
                  TimeoutError e \<Rightarrow> ''Request timed out for '' @ name cfg @ ''. Please try again.''
                | UpstreamError e \<Rightarrow> ''Streaming error with '' @ name cfg @ '': '' @ e)]"
    by (simp add: shape notifications_append user_trace_notifications [OF assms(3)]
        loop_notifications_chunks)
  have chunks: "filter is_chunk (map (chunk_of fragments) [0..<length fragments]) =
                map (chunk_of fragments) [0..<length fragments]"
    by (simp add: chunk_of_def)
  have no_complete: "filter is_complete (map (chunk_of fragments) [0..<length fragments]) = []"
    by (simp add: chunk_of_def)
  have no_error: "filter is_error (map (chunk_of fragments) [0..<length fragments]) = []"
    by (simp add: chunk_of_def)
  have store: "assistant_messages (snd (process_streaming_chat env data db)) = assistant_messages db"
    using save_user_message_through(5) [OF assms(3)]
    by (simp add: shape assistant_messages_def user_message_stored_role)
  show ?thesis
    using store by (simp add: sent chunks no_complete no_error)
qed

lemma hello_config: "get_model_config (rq_model (extract_request hello_data)) = Inr sonnet"
  by (simp add: get_model_config_def CLAUDE_MODELS_def extract_request_def hello_data_def sonnet_def)

lemma hello_saved:
  "user_commit_fault env = None \<Longrightarrow>
   \<exists>tr s. save_user_message env (extract_request hello_data) (get_db_session hello_store) = Inr (tr, s)"
  by (simp add: save_user_message_def extract_request_def hello_data_def hello_store_def
      greeting_def get_db_session_def db_add_def db_commit_def user_message_of_def
      fit_message_def fit_def Let_def)

theorem stream_error_ends_turn_witness:
  "client_ready (hello_env\<lparr>upstream_of := \<lambda>p. ([''Hel''], Some (UpstreamError ''overloaded''))\<rparr>) \<and>
   filter is_complete
     (notifications (fst (process_streaming_chat
        (hello_env\<lparr>upstream_of := \<lambda>p. ([''Hel''], Some (UpstreamError ''overloaded''))\<rparr>)
        hello_data hello_store))) = [] \<and>
   length (filter is_chunk
     (notifications (fst (process_streaming_chat
        (hello_env\<lparr>upstream_of := \<lambda>p. ([''Hel''], Some (UpstreamError ''overloaded''))\<rparr>)
        hello_data hello_store)))) = 1 \<and>
   assistant_messages (snd (process_streaming_chat
        (hello_env\<lparr>upstream_of := \<lambda>p. ([''Hel''], Some (UpstreamError ''overloaded''))\<rparr>)
        hello_data hello_store)) = []"
proof -
  define env where
    "env = hello_env\<lparr>upstream_of := \<lambda>p. ([''Hel''], Some (UpstreamError ''overloaded''))\<rparr>"
  have ready: "client_ready env" by (simp add: env_def hello_env_def)
  have "user_commit_fault env = None" by (simp add: env_def hello_env_def)
  then obtain tr s where
    saved: "save_user_message env (extract_request hello_data) (get_db_session hello_store) = Inr (tr, s)"
    using hello_saved by blast
  have up: "upstream_of env (api_params (extract_request hello_data) sonnet) =
              ([''Hel''], Some (UpstreamError ''overloaded''))"
    by (simp add: env_def)
  have none: "assistant_messages hello_store = []"
    by (simp add: assistant_messages_def hello_store_def)
  from stream_error_ends_turn [OF ready refl saved hello_config up] ready none
  show ?thesis unfolding env_def by simp
qed

section \<open>A streaming turn that completes\<close>

lemma assistant_message_fits:
  "fit 10 (rq_temperature rq) = Some t \<Longrightarrow> fit 100 (rq_model rq) = Some y \<Longrightarrow>
   fit_message (assistant_message_of env rq response) =
     Some (as_stored (assistant_message_of env rq response))"
  by (simp add: as_stored_def assistant_message_fit)

lemma assistant_message_unfit:
  "fit 100 (rq_model rq) = None \<Longrightarrow> fit_message (assistant_message_of env rq response) = None"
  by (simp add: assistant_message_fit split: option.splits)

lemma assistant_message_stored_fields:
  "m_content (as_stored (assistant_message_of env rq response)) = response"
  "m_role (as_stored (assistant_message_of env rq response)) = ''assistant''"
  "m_conversation_id (as_stored (assistant_message_of env rq response)) =
     conversation_id_of (rq_conversation_id rq)"
  "m_created_at (as_stored (assistant_message_of env rq response)) = assistant_created_at env"
  by (simp_all add: as_stored_fields as_stored_role assistant_message_of_def)

lemma assistant_message_stored_model:
  "length (rq_model rq) \<le> 100 \<Longrightarrow>
   m_model (as_stored (assistant_message_of env rq response)) = Some (rq_model rq)"
  by (simp add: as_stored_model assistant_message_of_def)

lemma save_assistant_message_rejected:
  assumes "truthy (rq_conversation_id rq)" and "response \<noteq> []"
    and "lookup_fault env = None"
    and "assistant_commit_fault env \<noteq> None \<or> fit 100 (rq_model rq) = None"
    and "added s = []" and "rows s = conversations (persisted s)"
  shows "save_assistant_message env rq response s =
           Inr ([DbAdd (assistant_message_of env rq response), DbQuery True, DbCommit False,
                 DbRollback], s)"
proof (cases "assistant_commit_fault env")
  case (Some e)
  show ?thesis
    by (rule save_assistant_message_refused [OF assms(1,2,3) Some assms(5,6)])
next
  case None
  with assms(4) have "fit 100 (rq_model rq) = None" by simp
  then have unfit: "fit_message (assistant_message_of env rq response) = None"
    by (rule assistant_message_unfit)
  show ?thesis
    using assms(1,2,3,5,6) None unfit
    by (cases s)
       (auto simp add: save_assistant_message_def db_add_def db_commit_def db_rollback_def Let_def
         split: option.splits)
qed

lemma streaming_rejected:
  assumes "client_ready env" and "rq = extract_request data"
    and "save_user_message env rq (get_db_session db) = Inr (tr, s)"
    and "get_model_config (rq_model rq) = Inr cfg"
    and "upstream_of env (api_params rq cfg) = (fragments, None)"
    and "truthy (rq_conversation_id rq)" and "concat fragments \<noteq> []"
    and "lookup_fault env = None"
    and "assistant_commit_fault env \<noteq> None \<or> fit 100 (rq_model rq) = None"
  shows "process_streaming_chat env data db =
           (tr @ [Send (Status (''Processing with '' @ name cfg @ ''...'')),
                  Invoke (api_params rq cfg)]
            @ fst (stream_loop (rq_model rq) [] 0 fragments)
            @ [Send (Complete (concat fragments) (reply_now env)),
               DbAdd (assistant_message_of env rq (concat fragments)),
               DbQuery True, DbCommit False, DbRollback, DbClose],
            \<lparr>conversations = conversations db,
             messages = messages db @ [as_stored (user_message_of env rq)]\<rparr>)"
proof -
  note through = save_user_message_through [OF assms(3)]
  have rows: "rows s = conversations (persisted s)"
    by (simp add: through(2) through(3))
  note refused = save_assistant_message_rejected [OF assms(6,7,8,9) through(1) rows]
  show ?thesis
    using assms(6) through(3) through(5)
    by (simp add: streaming_completes [OF assms(1-5) refused])
qed

lemma streaming_stored:
  assumes "client_ready env" and "rq = extract_request data"
    and "save_user_message env rq (get_db_session db) = Inr (tr, s)"
    and "get_model_config (rq_model rq) = Inr cfg"
    and "upstream_of env (api_params rq cfg) = (fragments, None)"
    and "truthy (rq_conversation_id rq)" and "concat fragments \<noteq> []"
    and "lookup_fault env = None"
    and "assistant_commit_fault env = None" and "fit 100 (rq_model rq) = Some y"
  shows "process_streaming_chat env data db =
           (tr @ [Send (Status (''Processing with '' @ name cfg @ ''...'')),
                  Invoke (api_params rq cfg)]
            @ fst (stream_loop (rq_model rq) [] 0 fragments)
            @ [Send (Complete (concat fragments) (reply_now env)),
               DbAdd (assistant_message_of env rq (concat fragments)),
               DbQuery True, DbCommit True, DbClose],
            \<lparr>conversations =
               update_first (conversation_id_of (rq_conversation_id rq))
                 (\<lambda>c. c\<lparr>c_updated_at := updated_now env\<rparr>) (conversations db),
             messages = messages db @ [as_stored (user_message_of env rq),
                                       as_stored (assistant_message_of env rq (concat fragments))]\<rparr>)"
proof -
  note through = save_user_message_through [OF assms(3)]
  from through(7) [OF assms(6)] obtain t where t: "fit 10 (rq_temperature rq) = Some t" ..
  note fits = assistant_message_fits [OF t assms(10)]
  note stored = save_assistant_message_stored
    [OF assms(6,7,8,9) through(1) through(2) through(3) through(4) [OF assms(6)] fits]
  show ?thesis
    using assms(6) through(5)
    by (simp add: streaming_completes [OF assms(1-5) stored])
qed

lemma streaming_reply_lost:
  assumes "client_ready env" and "rq = extract_request data"
    and "save_user_message env rq (get_db_session db) = Inr (tr, s)"
    and "get_model_config (rq_model rq) = Inr cfg"
    and "upstream_of env (api_params rq cfg) = (fragments, None)"
    and "truthy (rq_conversation_id rq)" and "concat fragments \<noteq> []"
    and "lookup_fault env = Some e"
  shows "process_streaming_chat env data db =
           (tr @ [Send (Status (''Processing with '' @ name cfg @ ''...'')),
                  Invoke (api_params rq cfg)]
            @ fst (stream_loop (rq_model rq) [] 0 fragments)
            @ [Send (Complete (concat fragments) (reply_now env)),
               DbAdd (assistant_message_of env rq (concat fragments)),
               DbQuery False,
               Send (Error (''Streaming error with '' @ name cfg @ '': '' @ e)), DbClose],
            \<lparr>conversations = conversations db,
             messages = messages db @ [as_stored (user_message_of env rq)]\<rparr>)"
proof -
  note through = save_user_message_through [OF assms(3)]
  note lost = save_assistant_message_lost [OF assms(6,7,8)]
  show ?thesis
    using assms(6) through(3) through(5)
    by (simp add: streaming_lost [OF assms(1-5) lost] db_add_def)
qed

lemma streaming_skipped:
  assumes "client_ready env" and "rq = extract_request data"
    and "save_user_message env rq (get_db_session db) = Inr (tr, s)"
    and "get_model_config (rq_model rq) = Inr cfg"
    and "upstream_of env (api_params rq cfg) = (fragments, None)"
    and "\<not> (truthy (rq_conversation_id rq) \<and> concat fragments \<noteq> [])"
  shows "process_streaming_chat env data db =
           (tr @ [Send (Status (''Processing with '' @ name cfg @ ''...'')),
                  Invoke (api_params rq cfg)]
            @ fst (stream_loop (rq_model rq) [] 0 fragments)
            @ [Send (Complete (concat fragments) (reply_now env)), DbClose],
            \<lparr>conversations = conversations db,
             messages = messages db @ (if truthy (rq_conversation_id rq)
                                       then [as_stored (user_message_of env rq)] else [])\<rparr>)"
proof -
  note through = save_user_message_through [OF assms(3)]
  note skipped = save_assistant_message_skipped [OF assms(6)]
  show ?thesis
    using through(3) through(5)
    by (simp add: streaming_completes [OF assms(1-5) skipped])
qed

text \<open>
  C1, at a turn whose stream yields \<^verbatim>\<open>Hel\<close>, \<^verbatim>\<open>lo\<close> and ends without error, on a
  conversation that exists. When the store reports a fault at the commit of the assistant
  message, the client receives both chunks and the complete notification with \<^verbatim>\<open>Hello\<close>,
  yet no assistant message is stored and the conversation row is as it was. When the store
  reports a fault at the query for the conversation row, the client receives an error
  notification after the complete notification, and again no assistant message is stored
  and the conversation row is as it was.
\<close>

theorem unsaved_reply_counterexample:
  "upstream_of (hello_env\<lparr>assistant_commit_fault := Some ''connection lost''\<rparr>)
     (api_params (extract_request hello_data) sonnet) = ([''Hel'', ''lo''], None) \<and>
   truthy (rq_conversation_id (extract_request hello_data)) \<and>
   notifications (fst (process_streaming_chat
      (hello_env\<lparr>assistant_commit_fault := Some ''connection lost''\<rparr>) hello_data hello_store)) =
     [Status ''Processing with Claude 4 Sonnet...'', Chunk ''Hel'' ''Hel'', Chunk ''lo'' ''Hello'',
      Complete ''Hello'' 5] \<and>
   assistant_messages (snd (process_streaming_chat
      (hello_env\<lparr>assistant_commit_fault := Some ''connection lost''\<rparr>) hello_data hello_store)) = [] \<and>
   conversations (snd (process_streaming_chat
      (hello_env\<lparr>assistant_commit_fault := Some ''connection lost''\<rparr>) hello_data hello_store)) =
     [greeting] \<and>
   notifications (fst (process_streaming_chat
      (hello_env\<lparr>lookup_fault := Some ''connection lost''\<rparr>) hello_data hello_store)) =
     [Status ''Processing with Claude 4 Sonnet...'', Chunk ''Hel'' ''Hel'', Chunk ''lo'' ''Hello'',
      Complete ''Hello'' 5, Error ''Streaming error with Claude 4 Sonnet: connection lost''] \<and>
   assistant_messages (snd (process_streaming_chat
      (hello_env\<lparr>lookup_fault := Some ''connection lost''\<rparr>) hello_data hello_store)) = [] \<and>
   conversations (snd (process_streaming_chat
      (hello_env\<lparr>lookup_fault := Some ''connection lost''\<rparr>) hello_data hello_store)) =
     [greeting]"
proof -
  define env where "env = hello_env\<lparr>assistant_commit_fault := Some ''connection lost''\<rparr>"
  have ready: "client_ready env" by (simp add: env_def hello_env_def)
  have "user_commit_fault env = None" by (simp add: env_def hello_env_def)
  then obtain tr s where
    saved: "save_user_message env (extract_request hello_data) (get_db_session hello_store)
              = Inr (tr, s)"
    using hello_saved by blast
  have up: "upstream_of env (api_params (extract_request hello_data) sonnet) =
              ([''Hel'', ''lo''], None)"
    by (simp add: env_def hello_env_def)
  have present: "truthy (rq_conversation_id (extract_request hello_data))"
    by (simp add: extract_request_def hello_data_def)
  have filled: "concat [''Hel'', ''lo''] \<noteq> []" by simp
  have answered: "lookup_fault env = None" by (simp add: env_def hello_env_def)
  have rejected: "assistant_commit_fault env \<noteq> None \<or>
                  fit 100 (rq_model (extract_request hello_data)) = None"
    by (simp add: env_def)
  note run = streaming_rejected
    [OF ready refl saved hello_config up present filled answered rejected]
  have model: "rq_model (extract_request hello_data) = ''claude-sonnet-4-20250514''"
    by (simp add: extract_request_def hello_data_def)
  have clock: "reply_now env = 5" by (simp add: env_def hello_env_def)
  have sent: "notifications (fst (process_streaming_chat env hello_data hello_store)) =
     [Status ''Processing with Claude 4 Sonnet...'', Chunk ''Hel'' ''Hel'', Chunk ''lo'' ''Hello'',
      Complete ''Hello'' 5]"
    using clock
    by (simp add: run notifications_append user_trace_notifications [OF saved] model
        loop_notifications_chunks chunk_of_def sonnet_def del: stream_loop.simps)
  have out: "snd (process_streaming_chat env hello_data hello_store) =
      \<lparr>conversations = conversations hello_store,
       messages = messages hello_store
                  @ [as_stored (user_message_of env (extract_request hello_data))]\<rparr>"
    by (simp add: run)
  have kept: "assistant_messages (snd (process_streaming_chat env hello_data hello_store)) = []"
    by (simp only: out) (simp add: assistant_messages_def hello_store_def user_message_stored_role)
  have rows: "conversations (snd (process_streaming_chat env hello_data hello_store)) = [greeting]"
    by (simp only: out) (simp add: hello_store_def)
  define deaf where "deaf = hello_env\<lparr>lookup_fault := Some ''connection lost''\<rparr>"
  have ready': "client_ready deaf" by (simp add: deaf_def hello_env_def)
  have "user_commit_fault deaf = None" by (simp add: deaf_def hello_env_def)
  then obtain tr' s' where
    saved': "save_user_message deaf (extract_request hello_data) (get_db_session hello_store)
              = Inr (tr', s')"
    using hello_saved by blast
  have up': "upstream_of deaf (api_params (extract_request hello_data) sonnet) =
              ([''Hel'', ''lo''], None)"
    by (simp add: deaf_def hello_env_def)
  have failed: "lookup_fault deaf = Some ''connection lost''" by (simp add: deaf_def)
  note run' = streaming_reply_lost
    [OF ready' refl saved' hello_config up' present filled failed]
  have clock': "reply_now deaf = 5" by (simp add: deaf_def hello_env_def)
  have sent': "notifications (fst (process_streaming_chat deaf hello_data hello_store)) =
     [Status ''Processing with Claude 4 Sonnet...'', Chunk ''Hel'' ''Hel'', Chunk ''lo'' ''Hello'',
      Complete ''Hello'' 5, Error ''Streaming error with Claude 4 Sonnet: connection lost'']"
    using clock'
    by (simp add: run' notifications_append user_trace_notifications [OF saved'] model
        loop_notifications_chunks chunk_of_def sonnet_def del: stream_loop.simps)
  have out': "snd (process_streaming_chat deaf hello_data hello_store) =
      \<lparr>conversations = conversations hello_store,
       messages = messages hello_store
                  @ [as_stored (user_message_of deaf (extract_request hello_data))]\<rparr>"
    by (simp add: run')
  have kept': "assistant_messages (snd (process_streaming_chat deaf hello_data hello_store)) = []"
    by (simp only: out') (simp add: assistant_messages_def hello_store_def user_message_stored_role)
  have rows': "conversations (snd (process_streaming_chat deaf hello_data hello_store)) = [greeting]"
    by (simp only: out') (simp add: hello_store_def)
  show ?thesis
    using up present sent kept rows sent' kept' rows' unfolding env_def deaf_def by simp
qed

text \<open>
  C1, amended. When the turn reaches the upstream and the stream yields fragments f1..fn and
  ends without error, the client receives the status notification, then exactly n chunk
  notifications, the i-th with fi and f1..fi joined, then exactly one complete notification
  with all fragments joined and the timestamp read; nothing follows it, except one error
  notification when a conversation id is present, the joined text is not empty and the
  query for the conversation row fails. If a conversation id is present and the joined
  text is not empty, then after the complete notification the assistant message is added
  and the conversation row queried. When the query is answered and the store accepts the
  commit (it reports no fault and the model identifier fits its column), the message, with
  that text, is stored after the user message and the conversation's \<^verbatim>\<open>updated_at\<close> is the
  time read. When the query is answered and the commit is rejected, the commit is rolled
  back; when the query fails, there is no commit and no rollback; in both cases the store
  holds what it held after the user message, the conversation rows unchanged. Without a
  conversation id, or with an empty text, nothing is added and the store is unchanged
  after the user message step.
\<close>

theorem streaming_turn_completes:
  assumes "client_ready env" and "rq = extract_request data"
    and "save_user_message env rq (get_db_session db) = Inr (tr, s)"
    and "get_model_config (rq_model rq) = Inr cfg"
    and "upstream_of env (api_params rq cfg) = (fragments, None)"
  shows "notifications (fst (process_streaming_chat env data db)) =
           Status (''Processing with '' @ name cfg @ ''...'')
           # map (chunk_of fragments) [0..<length fragments]
           @ [Complete (concat fragments) (reply_now env)]
           @ (if truthy (rq_conversation_id rq) \<and> concat fragments \<noteq> []
              then (case lookup_fault env of
                      None \<Rightarrow> []
                    | Some e \<Rightarrow> [Error (''Streaming error with '' @ name cfg @ '': '' @ e)])
              else []) \<and>
         (truthy (rq_conversation_id rq) \<and> concat fragments \<noteq> [] \<and>
          lookup_fault env = None \<and> assistant_commit_fault env = None \<and>
          fit 100 (rq_model rq) \<noteq> None \<longrightarrow>
            (\<exists>before. fst (process_streaming_chat env data db) =
               before @ [Send (Complete (concat fragments) (reply_now env)),
                         DbAdd (assistant_message_of env rq (concat fragments)),
                         DbQuery True, DbCommit True, DbClose]) \<and>
            messages (snd (process_streaming_chat env data db)) =
              messages db @ [as_stored (user_message_of env rq),
                             as_stored (assistant_message_of env rq (concat fragments))] \<and>
            m_role (as_stored (assistant_message_of env rq (concat fragments))) = ''assistant'' \<and>
            m_content (as_stored (assistant_message_of env rq (concat fragments))) =
              concat fragments \<and>
            m_conversation_id (as_stored (assistant_message_of env rq (concat fragments))) =
              conversation_id_of (rq_conversation_id rq) \<and>
            (\<exists>c. find_conversation (conversation_id_of (rq_conversation_id rq))
                    (conversations db) = Some c \<and>
                 find_conversation (conversation_id_of (rq_conversation_id rq))
                    (conversations (snd (process_streaming_chat env data db))) =
                   Some (c\<lparr>c_updated_at := updated_now env\<rparr>))) \<and>
         (truthy (rq_conversation_id rq) \<and> concat fragments \<noteq> [] \<and>
          lookup_fault env = None \<and>
          (assistant_commit_fault env \<noteq> None \<or> fit 100 (rq_model rq) = None) \<longrightarrow>
            (\<exists>before. fst (process_streaming_chat env data db) =
               before @ [Send (Complete (concat fragments) (reply_now env)),
                         DbAdd (assistant_message_of env rq (concat fragments)),
                         DbQuery True, DbCommit False, DbRollback, DbClose]) \<and>
            messages (snd (process_streaming_chat env data db)) =
              messages db @ [as_stored (user_message_of env rq)] \<and>
            conversations (snd (process_streaming_chat env data db)) = conversations db) \<and>
         (truthy (rq_conversation_id rq) \<and> concat fragments \<noteq> [] \<and>
          lookup_fault env \<noteq> None \<longrightarrow>
            (\<exists>before e. fst (process_streaming_chat env data db) =
               before @ [Send (Complete (concat fragments) (reply_now env)),
                         DbAdd (assistant_message_of env rq (concat fragments)),
                         DbQuery False,
                         Send (Error (''Streaming error with '' @ name cfg @ '': '' @ e)),
                         DbClose]) \<and>
            messages (snd (process_streaming_chat env data db)) =
              messages db @ [as_stored (user_message_of env rq)] \<and>
            conversations (snd (process_streaming_chat env data db)) = conversations db) \<and>
         (\<not> (truthy (rq_conversation_id rq) \<and> concat fragments \<noteq> []) \<longrightarrow>
            (\<exists>before. fst (process_streaming_chat env data db) =
               before @ [Send (Complete (concat fragments) (reply_now env)), DbClose]) \<and>
            messages (snd (process_streaming_chat env data db)) =
              messages db @ (if truthy (rq_conversation_id rq)
                             then [as_stored (user_message_of env rq)] else []) \<and>
            conversations (snd (process_streaming_chat env data db)) = conversations db)"
proof (intro conjI impI)
  note through = save_user_message_through [OF assms(3)]
  note quiet_user = user_trace_notifications [OF assms(3)]
  show "notifications (fst (process_streaming_chat env data db)) =
           Status (''Processing with '' @ name cfg @ ''...'')
           # map (chunk_of fragments) [0..<length fragments]
           @ [Complete (concat fragments) (reply_now env)]
           @ (if truthy (rq_conversation_id rq) \<and> concat fragments \<noteq> []
              then (case lookup_fault env of
                      None \<Rightarrow> []
                    | Some e \<Rightarrow> [Error (''Streaming error with '' @ name cfg @ '': '' @ e)])
              else [])"
  proof (cases "save_assistant_message env rq (concat fragments) s")
    case (Inr kept)
    obtain tr2 s2 where kept: "kept = (tr2, s2)" by (cases kept)
    have answered: "truthy (rq_conversation_id rq) \<and> concat fragments \<noteq> [] \<Longrightarrow>
                    lookup_fault env = None"
      using Inr by (auto simp: save_assistant_message_def Let_def split: option.splits)
    show ?thesis
      using answered
      by (simp add: streaming_completes [OF assms Inr [unfolded kept]] notifications_append
          quiet_user loop_notifications_chunks
          quiet_notifications_db [OF Inr [unfolded kept]])
  next
    case (Inl lost)
    obtain tr2 s2 e where lost: "lost = (tr2, s2, e)" by (cases lost)
    have failed: "truthy (rq_conversation_id rq) \<and> concat fragments \<noteq> [] \<and>
                  lookup_fault env = Some e"
      using Inl [unfolded lost]
      by (auto simp: save_assistant_message_def Let_def split: if_splits option.splits sum.splits)
    show ?thesis
      using failed
      by (simp add: streaming_lost [OF assms Inl [unfolded lost]] notifications_append
          quiet_user loop_notifications_chunks
          quiet_notifications_lost [OF Inl [unfolded lost]])
  qed
  {
    assume ok: "truthy (rq_conversation_id rq) \<and> concat fragments \<noteq> [] \<and>
                lookup_fault env = None \<and> assistant_commit_fault env = None \<and>
                fit 100 (rq_model rq) \<noteq> None"
    then have present: "truthy (rq_conversation_id rq)" and filled: "concat fragments \<noteq> []"
      and answered: "lookup_fault env = None" and accepted: "assistant_commit_fault env = None"
      by simp_all
    from ok obtain y where fits: "fit 100 (rq_model rq) = Some y" by auto
    note run = streaming_stored [OF assms present filled answered accepted fits]
    show "\<exists>before. fst (process_streaming_chat env data db) =
               before @ [Send (Complete (concat fragments) (reply_now env)),
                         DbAdd (assistant_message_of env rq (concat fragments)),
                         DbQuery True, DbCommit True, DbClose]"
      by (simp add: run)
    show "messages (snd (process_streaming_chat env data db)) =
              messages db @ [as_stored (user_message_of env rq),
                             as_stored (assistant_message_of env rq (concat fragments))]"
      by (simp add: run)
    show "m_role (as_stored (assistant_message_of env rq (concat fragments))) = ''assistant''"
      by (rule assistant_message_stored_fields(2))
    show "m_content (as_stored (assistant_message_of env rq (concat fragments))) =
              concat fragments"
      by (rule assistant_message_stored_fields(1))
    show "m_conversation_id (as_stored (assistant_message_of env rq (concat fragments))) =
              conversation_id_of (rq_conversation_id rq)"
      by (rule assistant_message_stored_fields(3))
    obtain c where c: "find_conversation (conversation_id_of (rq_conversation_id rq))
                          (conversations db) = Some c"
      using through(4) [OF present] find_conversation_Some_iff by blast
    have "find_conversation (conversation_id_of (rq_conversation_id rq))
            (conversations (snd (process_streaming_chat env data db))) =
          Some (c\<lparr>c_updated_at := updated_now env\<rparr>)"
      by (simp add: run find_update_first c)
    with c show "\<exists>c. find_conversation (conversation_id_of (rq_conversation_id rq))
                    (conversations db) = Some c \<and>
                 find_conversation (conversation_id_of (rq_conversation_id rq))
                    (conversations (snd (process_streaming_chat env data db))) =
                   Some (c\<lparr>c_updated_at := updated_now env\<rparr>)"
      by blast
  }
  {
    assume bad: "truthy (rq_conversation_id rq) \<and> concat fragments \<noteq> [] \<and>
                 lookup_fault env = None \<and>
                 (assistant_commit_fault env \<noteq> None \<or> fit 100 (rq_model rq) = None)"
    then have present: "truthy (rq_conversation_id rq)" and filled: "concat fragments \<noteq> []"
      and answered: "lookup_fault env = None"
      and rejected: "assistant_commit_fault env \<noteq> None \<or> fit 100 (rq_model rq) = None"
      by simp_all
    note run = streaming_rejected [OF assms present filled answered rejected]
    show "\<exists>before. fst (process_streaming_chat env data db) =
               before @ [Send (Complete (concat fragments) (reply_now env)),
                         DbAdd (assistant_message_of env rq (concat fragments)),
                         DbQuery True, DbCommit False, DbRollback, DbClose]"
      by (simp add: run)
    show "messages (snd (process_streaming_chat env data db)) =
              messages db @ [as_stored (user_message_of env rq)]"
      by (simp add: run)
    show "conversations (snd (process_streaming_chat env data db)) = conversations db"
      by (simp add: run)
  }
  {
    assume bad: "truthy (rq_conversation_id rq) \<and> concat fragments \<noteq> [] \<and>
                 lookup_fault env \<noteq> None"
    then have present: "truthy (rq_conversation_id rq)" and filled: "concat fragments \<noteq> []"
      by simp_all
    from bad obtain e where failed: "lookup_fault env = Some e" by auto
    note run = streaming_reply_lost [OF assms present filled failed]
    show "\<exists>before e. fst (process_streaming_chat env data db) =
               before @ [Send (Complete (concat fragments) (reply_now env)),
                         DbAdd (assistant_message_of env rq (concat fragments)),
                         DbQuery False,
                         Send (Error (''Streaming error with '' @ name cfg @ '': '' @ e)),
                         DbClose]"
      by (simp add: run)
    show "messages (snd (process_streaming_chat env data db)) =
              messages db @ [as_stored (user_message_of env rq)]"
      by (simp add: run)
    show "conversations (snd (process_streaming_chat env data db)) = conversations db"
      by (simp add: run)
  }
  {
    assume none: "\<not> (truthy (rq_conversation_id rq) \<and> concat fragments \<noteq> [])"
    note run = streaming_skipped [OF assms none]
    show "\<exists>before. fst (process_streaming_chat env data db) =
               before @ [Send (Complete (concat fragments) (reply_now env)), DbClose]"
      by (simp add: run)
    show "messages (snd (process_streaming_chat env data db)) =
              messages db @ (if truthy (rq_conversation_id rq)
                             then [as_stored (user_message_of env rq)] else [])"
      by (simp add: run)
    show "conversations (snd (process_streaming_chat env data db)) = conversations db"
      by (simp add: run)
  }
qed

theorem streaming_turn_completes_witness:
  "client_ready hello_env \<and>
   upstream_of hello_env (api_params (extract_request hello_data) sonnet) =
     ([''Hel'', ''lo''], None) \<and>
   truthy (rq_conversation_id (extract_request hello_data)) \<and>
   lookup_fault hello_env = None \<and> assistant_commit_fault hello_env = None \<and>
   fit 100 (rq_model (extract_request hello_data)) \<noteq> None \<and>
   notifications (fst (process_streaming_chat hello_env hello_data hello_store)) =
     [Status ''Processing with Claude 4 Sonnet...'', Chunk ''Hel'' ''Hel'', Chunk ''lo'' ''Hello'',
      Complete ''Hello'' 5] \<and>
   map m_content (messages (snd (process_streaming_chat hello_env hello_data hello_store))) =
     [''hi'', ''Hello''] \<and>
   map m_role (messages (snd (process_streaming_chat hello_env hello_data hello_store))) =
     [''user'', ''assistant''] \<and>
   find_conversation ''c1''
     (conversations (snd (process_streaming_chat hello_env hello_data hello_store))) =
     Some (greeting\<lparr>c_updated_at := 3\<rparr>)"
proof -
  have ready: "client_ready hello_env" by (simp add: hello_env_def)
  have "user_commit_fault hello_env = None" by (simp add: hello_env_def)
  then obtain tr s where
    saved: "save_user_message hello_env (extract_request hello_data) (get_db_session hello_store)
              = Inr (tr, s)"
    using hello_saved by blast
  have up: "upstream_of hello_env (api_params (extract_request hello_data) sonnet) =
              ([''Hel'', ''lo''], None)"
    by (simp add: hello_env_def)
  have present: "truthy (rq_conversation_id (extract_request hello_data))"
    by (simp add: extract_request_def hello_data_def)
  have answered: "lookup_fault hello_env = None" by (simp add: hello_env_def)
  have accepted: "assistant_commit_fault hello_env = None" by (simp add: hello_env_def)
  have fits: "fit 100 (rq_model (extract_request hello_data)) \<noteq> None"
    by (simp add: fit_def extract_request_def hello_data_def)
  have filled: "concat [''Hel'', ''lo''] \<noteq> []" by simp
  have cid: "conversation_id_of (rq_conversation_id (extract_request hello_data)) = ''c1''"
    by (simp add: extract_request_def hello_data_def)
  have found: "find_conversation ''c1'' (conversations hello_store) = Some greeting"
    by (simp add: find_conversation_def hello_store_def greeting_def)
  have asked: "m_content (as_stored (user_message_of hello_env (extract_request hello_data))) = ''hi''"
    by (simp add: as_stored_fields user_message_of_def extract_request_def hello_data_def)
  have clock: "reply_now hello_env = 5" "updated_now hello_env = 3" by (simp_all add: hello_env_def)
  note claim = streaming_turn_completes [OF ready refl saved hello_config up]
  have sent: "notifications (fst (process_streaming_chat hello_env hello_data hello_store)) =
     [Status ''Processing with Claude 4 Sonnet...'', Chunk ''Hel'' ''Hel'', Chunk ''lo'' ''Hello'',
      Complete ''Hello'' 5]"
    using claim present answered clock
    by (simp add: chunk_of_def sonnet_def)
  from claim present filled answered accepted fits
  have stored: "messages (snd (process_streaming_chat hello_env hello_data hello_store)) =
      messages hello_store
      @ [as_stored (user_message_of hello_env (extract_request hello_data)),
         as_stored (assistant_message_of hello_env (extract_request hello_data)
                      (concat [''Hel'', ''lo'']))]"
    and stamped: "\<exists>c. find_conversation
                    (conversation_id_of (rq_conversation_id (extract_request hello_data)))
                    (conversations hello_store) = Some c \<and>
                 find_conversation
                    (conversation_id_of (rq_conversation_id (extract_request hello_data)))
                    (conversations (snd (process_streaming_chat hello_env hello_data hello_store))) =
                   Some (c\<lparr>c_updated_at := updated_now hello_env\<rparr>)"
    by blast+
  have contents: "map m_content (messages (snd (process_streaming_chat hello_env hello_data hello_store))) =
     [''hi'', ''Hello'']"
    by (simp only: stored) (simp add: hello_store_def asked assistant_message_stored_fields)
  have roles: "map m_role (messages (snd (process_streaming_chat hello_env hello_data hello_store))) =
     [''user'', ''assistant'']"
    by (simp only: stored)
       (simp add: hello_store_def user_message_stored_role assistant_message_stored_fields)
  have row: "find_conversation ''c1''
     (conversations (snd (process_streaming_chat hello_env hello_data hello_store))) =
     Some (greeting\<lparr>c_updated_at := 3\<rparr>)"
    using stamped by (simp add: cid found clock)
  show ?thesis
    using ready up present answered accepted fits sent contents roles row by simp
qed

section \<open>The non-streaming turn, case by case\<close>

lemma chat_refused:
  assumes "client_ready env"
    and "save_user_message env rq (get_db_session db) = Inl (tr, s, e)"
  shows "chat_endpoint env rq db = (Inl (HTTPException 500 e), tr, persisted s)"
  using assms by (simp add: chat_endpoint_def)

lemma chat_completes:
  assumes "client_ready env"
    and "save_user_message env rq (get_db_session db) = Inr (tr, s)"
    and "get_model_config (rq_model rq) = Inr cfg"
    and "upstream_of env (api_params rq cfg) = (fragments, None)"
    and "save_assistant_message env rq (concat fragments) s = Inr (tr2, s2)"
  shows "chat_endpoint env rq db =
           (Inr \<lparr>cr_message = concat fragments, cr_timestamp = reply_now env\<rparr>,
            tr @ [Invoke (api_params rq cfg)] @ tr2, persisted s2)"
  using assms by (simp add: chat_endpoint_def case_prod_beta Let_def)

lemma chat_lost:
  assumes "client_ready env"
    and "save_user_message env rq (get_db_session db) = Inr (tr, s)"
    and "get_model_config (rq_model rq) = Inr cfg"
    and "upstream_of env (api_params rq cfg) = (fragments, None)"
    and "save_assistant_message env rq (concat fragments) s = Inl (tr2, s2, e)"
  shows "chat_endpoint env rq db =
           (Inl (HTTPException 500 e), tr @ [Invoke (api_params rq cfg)] @ tr2, persisted s2)"
  using assms by (simp add: chat_endpoint_def case_prod_beta Let_def)

lemma chat_fails:
  assumes "client_ready env"
    and "save_user_message env rq (get_db_session db) = Inr (tr, s)"
    and "get_model_config (rq_model rq) = Inr cfg"
    and "upstream_of env (api_params rq cfg) = (fragments, Some err)"
  shows "chat_endpoint env rq db =
           (Inl (HTTPException 500 (error_text err)), tr @ [Invoke (api_params rq cfg)],
            persisted s)"
  using assms by (simp add: chat_endpoint_def)

section \<open>A user message that cannot be saved\<close>

text \<open>
  C3, at a turn on an existing conversation when the store reports a fault at the commit of
  the user message: the streaming handler sends one error notification and nothing else,
  the non-streaming handler answers with a 500 error, and in neither is the upstream
  invoked.
\<close>

theorem unsaved_question_counterexample:
  "truthy (rq_conversation_id (extract_request hello_data)) \<and>
   filter is_invoke (fst (process_streaming_chat
      (hello_env\<lparr>user_commit_fault := Some ''connection lost''\<rparr>) hello_data hello_store)) = [] \<and>
   notifications (fst (process_streaming_chat
      (hello_env\<lparr>user_commit_fault := Some ''connection lost''\<rparr>) hello_data hello_store)) =
     [Error ''connection lost''] \<and>
   fst (chat_endpoint (hello_env\<lparr>user_commit_fault := Some ''connection lost''\<rparr>)
          (extract_request hello_data) hello_store) =
     Inl (HTTPException 500 ''connection lost'') \<and>
   filter is_invoke (fst (snd (chat_endpoint
      (hello_env\<lparr>user_commit_fault := Some ''connection lost''\<rparr>)
      (extract_request hello_data) hello_store))) = []"
proof -
  define env where "env = hello_env\<lparr>user_commit_fault := Some ''connection lost''\<rparr>"
  have ready: "client_ready env" by (simp add: env_def hello_env_def)
  have present: "truthy (rq_conversation_id (extract_request hello_data))"
    by (simp add: extract_request_def hello_data_def)
  have fault: "db_commit (user_commit_fault env)
                 (db_add (user_message_of env (extract_request hello_data))
                    (get_db_session hello_store)) = Inl ''connection lost''"
    by (simp add: env_def db_commit_def)
  note raised = save_user_message_fails [OF present fault]
  note stream = streaming_refused [OF ready refl raised]
  note chat = chat_refused [OF ready raised]
  show ?thesis
    using present unfolding env_def [symmetric] by (simp add: stream chat)
qed

text \<open>
  C3, amended. For every chat turn that carries a conversation id, a failure of the commit
  of the user message ends the turn before the upstream is invoked: the commit is rolled
  back and the store is as it was. The streaming handler closes its session and sends one
  error notification with the text of the failure, and no status, chunk or complete
  notification; the non-streaming handler answers with a 500 error with that text and
  returns no reply.
\<close>

theorem user_save_failure_ends_turn:
  assumes "client_ready env" and "truthy (rq_conversation_id rq)"
    and "db_commit (user_commit_fault env)
           (db_add (user_message_of env rq) (get_db_session db)) = Inl e"
  shows "(rq = extract_request data \<longrightarrow>
            process_streaming_chat env data db =
              ([DbAdd (user_message_of env rq), DbCommit False, DbRollback, DbClose,
                Send (Error e)], db) \<and>
            notifications (fst (process_streaming_chat env data db)) = [Error e] \<and>
            filter is_invoke (fst (process_streaming_chat env data db)) = []) \<and>
         chat_endpoint env rq db =
           (Inl (HTTPException 500 e),
            [DbAdd (user_message_of env rq), DbCommit False, DbRollback], db) \<and>
         filter is_invoke (fst (snd (chat_endpoint env rq db))) = []"
proof -
  note raised = save_user_message_fails [OF assms(2,3)]
  have chat: "chat_endpoint env rq db =
           (Inl (HTTPException 500 e),
            [DbAdd (user_message_of env rq), DbCommit False, DbRollback], db)"
    by (simp add: chat_refused [OF assms(1) raised] get_db_session_def)
  have stream: "rq = extract_request data \<Longrightarrow>
      process_streaming_chat env data db =
        ([DbAdd (user_message_of env rq), DbCommit False, DbRollback, DbClose, Send (Error e)], db)"
    by (simp add: streaming_refused [OF assms(1) _ raised] get_db_session_def)
  show ?thesis
    using stream by (simp add: chat)
qed

theorem user_save_failure_ends_turn_witness:
  "client_ready (hello_env\<lparr>user_commit_fault := Some ''connection lost''\<rparr>) \<and>
   truthy (rq_conversation_id (extract_request hello_data)) \<and>
   db_commit (user_commit_fault (hello_env\<lparr>user_commit_fault := Some ''connection lost''\<rparr>))
     (db_add (user_message_of (hello_env\<lparr>user_commit_fault := Some ''connection lost''\<rparr>)
                (extract_request hello_data))
        (get_db_session hello_store)) = Inl ''connection lost'' \<and>
   snd (process_streaming_chat (hello_env\<lparr>user_commit_fault := Some ''connection lost''\<rparr>)
          hello_data hello_store) = hello_store \<and>
   snd (snd (chat_endpoint (hello_env\<lparr>user_commit_fault := Some ''connection lost''\<rparr>)
          (extract_request hello_data) hello_store)) = hello_store"
proof -
  define env where "env = hello_env\<lparr>user_commit_fault := Some ''connection lost''\<rparr>"
  have ready: "client_ready env" by (simp add: env_def hello_env_def)
  have present: "truthy (rq_conversation_id (extract_request hello_data))"
    by (simp add: extract_request_def hello_data_def)
  have fault: "db_commit (user_commit_fault env)
                 (db_add (user_message_of env (extract_request hello_data))
                    (get_db_session hello_store)) = Inl ''connection lost''"
    by (simp add: env_def db_commit_def)
  from user_save_failure_ends_turn [OF ready present fault, of hello_data] ready present fault
  show ?thesis unfolding env_def [symmetric] by simp
qed

section \<open>Which model a turn names upstream, to the client and in the store\<close>

lemma unknown_model_config:
  "model \<notin> fst ` set CLAUDE_MODELS \<Longrightarrow> get_model_config model = Inr sonnet"
  by (simp add: get_model_config_def default_entry unknown_entry sonnet_def)

lemma user_trace_invokes:
  "save_user_message env rq s0 = Inr (tr, s) \<Longrightarrow> filter is_invoke tr = []"
  by (auto simp: save_user_message_def Let_def split: if_splits sum.splits)

lemma assistant_trace_invokes:
  "save_assistant_message env rq response s = Inr (tr2, s2) \<Longrightarrow> filter is_invoke tr2 = []"
  by (auto simp: save_assistant_message_def Let_def split: if_splits sum.splits option.splits)

lemma assistant_trace_invokes_lost:
  "save_assistant_message env rq response s = Inl (tr2, s2, e) \<Longrightarrow> filter is_invoke tr2 = []"
  by (auto simp: save_assistant_message_def Let_def split: if_splits sum.splits option.splits)

lemma stream_loop_invokes:
  "filter is_invoke (fst (stream_loop model acc cnt frags)) = []"
  by (induction frags arbitrary: acc cnt)
     (simp_all add: stream_loop_step del: stream_loop.simps(2))

lemma fit_take: "fit n v = Some kept \<Longrightarrow> kept = take n v"
  by (auto simp: fit_def split: if_splits)

lemma assistant_message_kept:
  assumes "fit_message (assistant_message_of env rq response) = Some kept"
  shows "m_role kept = ''assistant''" and "m_model kept = Some (take 100 (rq_model rq))"
proof -
  from assms obtain t y where
    y: "fit 100 (rq_model rq) = Some y"
    and kept: "kept = (assistant_message_of env rq response)\<lparr>m_temperature := t, m_model := Some y\<rparr>"
    by (auto simp: assistant_message_fit split: option.splits)
  show "m_role kept = ''assistant''"
    by (simp add: kept assistant_message_of_def)
  show "m_model kept = Some (take 100 (rq_model rq))"
    using fit_take [OF y] by (simp add: kept)
qed

lemma save_assistant_message_lost_store:
  "save_assistant_message env rq response s = Inl (tr2, s2, e) \<Longrightarrow> persisted s2 = persisted s"
  by (auto simp: save_assistant_message_def db_add_def Let_def
      split: if_splits sum.splits option.splits)

lemma save_assistant_message_extra:
  assumes "added s = []"
    and "save_assistant_message env rq response s = Inr (tr2, s2)"
  shows "\<exists>extra. messages (persisted s2) = messages (persisted s) @ extra \<and>
                 list_all (\<lambda>m. m_role m = ''assistant'' \<and>
                               m_model m = Some (take 100 (rq_model rq))) extra"
proof (cases "truthy (rq_conversation_id rq) \<and> response \<noteq> []")
  case False
  then have "save_assistant_message env rq response s = Inr ([], s)"
    by (rule save_assistant_message_skipped)
  with assms(2) have "messages (persisted s2) = messages (persisted s) @ []" by simp
  moreover have "list_all (\<lambda>m. m_role m = ''assistant'' \<and>
                               m_model m = Some (take 100 (rq_model rq))) []"
    by simp
  ultimately show ?thesis by blast
next
  case True
  have answered: "lookup_fault env = None"
    using True assms(2) by (auto simp: save_assistant_message_def Let_def split: option.splits)
  define am where "am = assistant_message_of env rq response"
  define s' where
    "s' = (case find_conversation (conversation_id_of (rq_conversation_id rq))
                  (rows (db_add am s)) of
             Some conversation \<Rightarrow>
               (db_add am s)
                 \<lparr>rows := update_first (conversation_id_of (rq_conversation_id rq))
                             (\<lambda>c. c\<lparr>c_updated_at := updated_now env\<rparr>)
                             (rows (db_add am s))\<rparr>
           | None \<Rightarrow> db_add am s)"
  have s': "added s' = [am]" "persisted s' = persisted s"
    using assms(1) by (simp_all add: s'_def db_add_def split: option.splits)
  have run: "save_assistant_message env rq response s =
      (case db_commit (assistant_commit_fault env) s' of
         Inr s3 \<Rightarrow> Inr ([DbAdd am, DbQuery True, DbCommit True], s3)
       | Inl commit_error \<Rightarrow>
           Inr ([DbAdd am, DbQuery True, DbCommit False, DbRollback], db_rollback s'))"
    using True answered unfolding s'_def am_def
    by (simp add: save_assistant_message_def Let_def)
  show ?thesis
  proof (cases "db_commit (assistant_commit_fault env) s'")
    case (Inl e)
    then have "s2 = db_rollback s'"
      using assms(2) by (simp add: run)
    then have "messages (persisted s2) = messages (persisted s) @ []"
      by (simp add: db_rollback_def s')
    moreover have "list_all (\<lambda>m. m_role m = ''assistant'' \<and>
                                 m_model m = Some (take 100 (rq_model rq))) []"
      by simp
    ultimately show ?thesis by blast
  next
    case (Inr s3)
    then have same: "s2 = s3"
      using assms(2) by (simp add: run)
    from Inr obtain kept where
      kept: "fit_message am = Some kept"
      and written: "messages (persisted s3) = messages (persisted s') @ [kept]"
      by (auto simp: db_commit_def s'(1) split: option.splits if_splits)
    have "messages (persisted s2) = messages (persisted s) @ [kept]"
      by (simp add: same written s')
    moreover have "list_all (\<lambda>m. m_role m = ''assistant'' \<and>
                                 m_model m = Some (take 100 (rq_model rq))) [kept]"
      using assistant_message_kept [OF kept [unfolded am_def]] by simp
    ultimately show ?thesis by blast
  qed
qed

lemma assistant_messages_extra:
  assumes "messages db' = messages db @ before @ extra"
    and "list_all (\<lambda>m. m_role m = ''user'') before"
    and "list_all (\<lambda>m. m_role m = ''assistant'' \<and> m_model m = Some model) extra"
  shows "assistant_messages db' = assistant_messages db @ extra \<and>
         list_all (\<lambda>m. m_model m = Some model) extra"
proof -
  have "filter (\<lambda>m. m_role m = ''assistant'') before = []"
    using assms(2) by (induction before) auto
  moreover have "filter (\<lambda>m. m_role m = ''assistant'') extra = extra"
    using assms(3) by (induction extra) auto
  moreover have "list_all (\<lambda>m. m_model m = Some model) extra"
    using assms(3) by (induction extra) auto
  ultimately show ?thesis
    by (simp add: assistant_messages_def assms(1))
qed

lemma turn_store_extra:
  assumes "save_user_message env rq (get_db_session db) = Inr (tr, s)"
  shows "save_assistant_message env rq response s = Inr (tr2, s2) \<Longrightarrow>
         \<exists>extra. assistant_messages (persisted s2) = assistant_messages db @ extra \<and>
                 list_all (\<lambda>m. m_model m = Some (take 100 (rq_model rq))) extra"
    and "assistant_messages (persisted s) = assistant_messages db @ []"
proof -
  note through = save_user_message_through [OF assms]
  define before where
    "before = (if truthy (rq_conversation_id rq) then [as_stored (user_message_of env rq)] else [])"
  have before: "list_all (\<lambda>m. m_role m = ''user'') before"
    by (simp add: before_def user_message_stored_role)
  have "messages (persisted s) = messages db @ before @ []"
    by (simp add: through(5) before_def)
  from assistant_messages_extra [OF this before, of "take 100 (rq_model rq)"]
  show "assistant_messages (persisted s) = assistant_messages db @ []"
    by simp
  show "\<exists>extra. assistant_messages (persisted s2) = assistant_messages db @ extra \<and>
                 list_all (\<lambda>m. m_model m = Some (take 100 (rq_model rq))) extra"
    if kept: "save_assistant_message env rq response s = Inr (tr2, s2)"
  proof -
    obtain extra where
      extra: "messages (persisted s2) = messages (persisted s) @ extra"
      and marks: "list_all (\<lambda>m. m_role m = ''assistant'' \<and>
                                 m_model m = Some (take 100 (rq_model rq))) extra"
      using save_assistant_message_extra [OF through(1) kept] by blast
    have "messages (persisted s2) = messages db @ before @ extra"
      by (simp add: extra through(5) before_def)
    from assistant_messages_extra [OF this before marks]
    show ?thesis by blast
  qed
qed

lemma completed_turn_errors:
  assumes "client_ready env" and "rq = extract_request data"
    and "save_user_message env rq (get_db_session db) = Inr (tr, s)"
    and "get_model_config (rq_model rq) = Inr cfg"
    and "upstream_of env (api_params rq cfg) = (fragments, None)"
  shows "filter is_error (notifications (fst (process_streaming_chat env data db))) =
           (if truthy (rq_conversation_id rq) \<and> concat fragments \<noteq> []
            then (case lookup_fault env of
                    None \<Rightarrow> []
                  | Some e \<Rightarrow> [Error (''Streaming error with '' @ name cfg @ '': '' @ e)])
            else [])"
proof (cases "save_assistant_message env rq (concat fragments) s")
  case (Inr kept)
  obtain tr2 s2 where kept: "kept = (tr2, s2)" by (cases kept)
  have answered: "truthy (rq_conversation_id rq) \<and> concat fragments \<noteq> [] \<Longrightarrow>
                  lookup_fault env = None"
    using Inr by (auto simp: save_assistant_message_def Let_def split: option.splits)
  show ?thesis
    using answered
    by (simp add: streaming_completes [OF assms Inr [unfolded kept]] notifications_append
        user_trace_notifications [OF assms(3)] loop_notifications_chunks chunk_of_def
        quiet_notifications_db [OF Inr [unfolded kept]])
next
  case (Inl lost)
  obtain tr2 s2 e where lost: "lost = (tr2, s2, e)" by (cases lost)
  have failed: "truthy (rq_conversation_id rq) \<and> concat fragments \<noteq> [] \<and>
                lookup_fault env = Some e"
    using Inl [unfolded lost]
    by (auto simp: save_assistant_message_def Let_def split: if_splits option.splits sum.splits)
  show ?thesis
    using failed
    by (simp add: streaming_lost [OF assms Inl [unfolded lost]] notifications_append
        user_trace_notifications [OF assms(3)] loop_notifications_chunks chunk_of_def
        quiet_notifications_lost [OF Inl [unfolded lost]])
qed

lemma failed_turn_errors:
  assumes "client_ready env" and "rq = extract_request data"
    and "save_user_message env rq (get_db_session db) = Inr (tr, s)"
    and "get_model_config (rq_model rq) = Inr cfg"
    and "upstream_of env (api_params rq cfg) = (fragments, Some err)"
  shows "filter is_error (notifications (fst (process_streaming_chat env data db))) =
           [Error (case err of
                     TimeoutError e \<Rightarrow>
                       ''Request timed out for '' @ name cfg @ ''. Please try again.''
                   | UpstreamError e \<Rightarrow> ''Streaming error with '' @ name cfg @ '': '' @ e)]"
  by (simp add: streaming_fails [OF assms] notifications_append
      user_trace_notifications [OF assms(3)] loop_notifications_chunks chunk_of_def)

lemma streaming_opening:
  assumes "client_ready env" and "rq = extract_request data"
    and "save_user_message env rq (get_db_session db) = Inr (tr, s)"
    and "get_model_config (rq_model rq) = Inr cfg"
  shows "\<exists>rest (final::session). process_streaming_chat env data db =
           (tr @ Send (Status (''Processing with '' @ name cfg @ ''...''))
               # Invoke (api_params rq cfg) # rest, persisted final) \<and>
           filter is_invoke rest = [] \<and>
           (\<exists>extra. assistant_messages (persisted final) = assistant_messages db @ extra \<and>
                     list_all (\<lambda>m. m_model m = Some (take 100 (rq_model rq))) extra)"
proof -
  note extra = turn_store_extra [OF assms(3)]
  have none: "list_all (\<lambda>m. m_model m = Some (take 100 (rq_model rq))) []" by simp
  obtain fragments failure where
    up: "upstream_of env (api_params rq cfg) = (fragments, failure)"
    by (cases "upstream_of env (api_params rq cfg)") auto
  show ?thesis
  proof (cases failure)
    case (Some err)
    note shape = streaming_fails [OF assms up [unfolded Some]]
    define rest where
      "rest = fst (stream_loop (rq_model rq) [] 0 fragments)
              @ [Send (Error (case err of
                              TimeoutError e \<Rightarrow>
                                ''Request timed out for '' @ name cfg @ ''. Please try again.''
                            | UpstreamError e \<Rightarrow>
                                ''Streaming error with '' @ name cfg @ '': '' @ e)),
                 DbClose]"
    have run: "process_streaming_chat env data db =
           (tr @ Send (Status (''Processing with '' @ name cfg @ ''...''))
               # Invoke (api_params rq cfg) # rest, persisted s)"
      by (simp add: shape rest_def)
    have silent: "filter is_invoke rest = []"
      by (simp add: rest_def stream_loop_invokes)
    have kept: "\<exists>extra. assistant_messages (persisted s) = assistant_messages db @ extra \<and>
                     list_all (\<lambda>m. m_model m = Some (take 100 (rq_model rq))) extra"
      using extra(2) none by blast
    show ?thesis
      by (rule exI [of _ rest], rule exI [of _ s]) (intro conjI run silent kept)
  next
    case None
    show ?thesis
    proof (cases "save_assistant_message env rq (concat fragments) s")
      case (Inr kept)
      obtain tr2 s2 where kept: "kept = (tr2, s2)" by (cases kept)
      note shape = streaming_completes [OF assms up [unfolded None] Inr [unfolded kept]]
      define rest where
        "rest = fst (stream_loop (rq_model rq) [] 0 fragments)
                @ [Send (Complete (concat fragments) (reply_now env))] @ tr2 @ [DbClose]"
      have run: "process_streaming_chat env data db =
             (tr @ Send (Status (''Processing with '' @ name cfg @ ''...''))
                 # Invoke (api_params rq cfg) # rest, persisted s2)"
        by (simp add: shape rest_def)
      have silent: "filter is_invoke rest = []"
        by (simp add: rest_def stream_loop_invokes assistant_trace_invokes [OF Inr [unfolded kept]])
      note more = extra(1) [OF Inr [unfolded kept]]
      show ?thesis
        by (rule exI [of _ rest], rule exI [of _ s2]) (intro conjI run silent more)
    next
      case (Inl lost)
      obtain tr2 s2 e where lost: "lost = (tr2, s2, e)" by (cases lost)
      note shape = streaming_lost [OF assms up [unfolded None] Inl [unfolded lost]]
      define rest where
        "rest = fst (stream_loop (rq_model rq) [] 0 fragments)
                @ [Send (Complete (concat fragments) (reply_now env))] @ tr2
                @ [Send (Error (''Streaming error with '' @ name cfg @ '': '' @ e)), DbClose]"
      have run: "process_streaming_chat env data db =
             (tr @ Send (Status (''Processing with '' @ name cfg @ ''...''))
                 # Invoke (api_params rq cfg) # rest, persisted s2)"
        by (simp add: shape rest_def)
      have silent: "filter is_invoke rest = []"
        by (simp add: rest_def stream_loop_invokes
            assistant_trace_invokes_lost [OF Inl [unfolded lost]])
      have "assistant_messages (persisted s2) = assistant_messages db @ []"
        using extra(2) by (simp add: save_assistant_message_lost_store [OF Inl [unfolded lost]])
      with none
      have kept: "\<exists>extra. assistant_messages (persisted s2) = assistant_messages db @ extra \<and>
                     list_all (\<lambda>m. m_model m = Some (take 100 (rq_model rq))) extra"
        by blast
      show ?thesis
        by (rule exI [of _ rest], rule exI [of _ s2]) (intro conjI run silent kept)
    qed
  qed
qed

lemma chat_opening:
  assumes "client_ready env"
    and "save_user_message env rq (get_db_session db) = Inr (tr, s)"
    and "get_model_config (rq_model rq) = Inr cfg"
  shows "\<exists>answer rest (final::session). chat_endpoint env rq db =
           (answer, tr @ Invoke (api_params rq cfg) # rest, persisted final) \<and>
           filter is_invoke rest = [] \<and>
           (\<exists>extra. assistant_messages (persisted final) = assistant_messages db @ extra \<and>
                     list_all (\<lambda>m. m_model m = Some (take 100 (rq_model rq))) extra)"
proof -
  note extra = turn_store_extra [OF assms(2)]
  have none: "list_all (\<lambda>m. m_model m = Some (take 100 (rq_model rq))) []" by simp
  obtain fragments failure where
    up: "upstream_of env (api_params rq cfg) = (fragments, failure)"
    by (cases "upstream_of env (api_params rq cfg)") auto
  show ?thesis
  proof (cases failure)
    case (Some err)
    note shape = chat_fails [OF assms up [unfolded Some]]
    have run: "chat_endpoint env rq db =
                 (Inl (HTTPException 500 (error_text err)),
                  tr @ Invoke (api_params rq cfg) # [], persisted s)"
      by (simp add: shape)
    have silent: "filter is_invoke [] = []" by simp
    have kept: "\<exists>extra. assistant_messages (persisted s) = assistant_messages db @ extra \<and>
                     list_all (\<lambda>m. m_model m = Some (take 100 (rq_model rq))) extra"
      using extra(2) none by blast
    show ?thesis
      by (rule exI [of _ "Inl (HTTPException 500 (error_text err))"], rule exI [of _ "[]"],
          rule exI [of _ s])
         (intro conjI run silent kept)
  next
    case None
    show ?thesis
    proof (cases "save_assistant_message env rq (concat fragments) s")
      case (Inr kept)
      obtain tr2 s2 where kept: "kept = (tr2, s2)" by (cases kept)
      note shape = chat_completes [OF assms up [unfolded None] Inr [unfolded kept]]
      have run: "chat_endpoint env rq db =
                   (Inr \<lparr>cr_message = concat fragments, cr_timestamp = reply_now env\<rparr>,
                    tr @ Invoke (api_params rq cfg) # tr2, persisted s2)"
        by (simp add: shape)
      note silent = assistant_trace_invokes [OF Inr [unfolded kept]]
      note more = extra(1) [OF Inr [unfolded kept]]
      show ?thesis
        by (rule exI [of _ "Inr \<lparr>cr_message = concat fragments, cr_timestamp = reply_now env\<rparr>"],
            rule exI [of _ tr2], rule exI [of _ s2])
           (intro conjI run silent more)
    next
      case (Inl lost)
      obtain tr2 s2 e where lost: "lost = (tr2, s2, e)" by (cases lost)
      note shape = chat_lost [OF assms up [unfolded None] Inl [unfolded lost]]
      have run: "chat_endpoint env rq db =
                   (Inl (HTTPException 500 e), tr @ Invoke (api_params rq cfg) # tr2,
                    persisted s2)"
        by (simp add: shape)
      note silent = assistant_trace_invokes_lost [OF Inl [unfolded lost]]
      have "assistant_messages (persisted s2) = assistant_messages db @ []"
        using extra(2) by (simp add: save_assistant_message_lost_store [OF Inl [unfolded lost]])
      with none
      have kept: "\<exists>extra. assistant_messages (persisted s2) = assistant_messages db @ extra \<and>
                     list_all (\<lambda>m. m_model m = Some (take 100 (rq_model rq))) extra"
        by blast
      show ?thesis
        by (rule exI [of _ "Inl (HTTPException 500 e)"], rule exI [of _ tr2], rule exI [of _ s2])
           (intro conjI run silent kept)
    qed
  qed
qed

text \<open>
  C10, at a streaming turn that names the model \<^verbatim>\<open>gpt-4\<close>, which is not in the registry: the
  status notification names \<^verbatim>\<open>Claude 4 Sonnet\<close>, and so does the error notification when the
  stream fails. The display name of the default model's descriptor is taken too, not only
  its maximum output tokens and its thinking support.
\<close>

theorem default_name_counterexample:
  "rq_model (extract_request other_data) = ''gpt-4'' \<and>
   map_of CLAUDE_MODELS ''gpt-4'' = None \<and>
   map_option name (map_of CLAUDE_MODELS ''claude-sonnet-4-20250514'') = Some ''Claude 4 Sonnet'' \<and>
   notifications (fst (process_streaming_chat
      (hello_env\<lparr>upstream_of := \<lambda>p. ([], Some (UpstreamError ''overloaded''))\<rparr>)
      other_data hello_store)) =
     [Status ''Processing with Claude 4 Sonnet...'',
      Error ''Streaming error with Claude 4 Sonnet: overloaded'']"
proof -
  define env where
    "env = hello_env\<lparr>upstream_of := \<lambda>p. ([], Some (UpstreamError ''overloaded''))\<rparr>"
  define rq where "rq = extract_request other_data"
  have model: "rq_model rq = ''gpt-4''"
    by (simp add: rq_def extract_request_def other_data_def)
  have unknown: "rq_model rq \<notin> fst ` set CLAUDE_MODELS"
    by (simp add: model registry_keys)
  have ready: "client_ready env" by (simp add: env_def hello_env_def)
  have "\<exists>tr s. save_user_message env rq (get_db_session hello_store) = Inr (tr, s)"
    by (simp add: rq_def env_def save_user_message_def extract_request_def other_data_def
        hello_data_def hello_store_def hello_env_def greeting_def get_db_session_def db_add_def
        db_commit_def user_message_of_def fit_message_def fit_def Let_def)
  then obtain tr s where
    saved: "save_user_message env rq (get_db_session hello_store) = Inr (tr, s)"
    by blast
  have up: "upstream_of env (api_params rq sonnet) = ([], Some (UpstreamError ''overloaded''))"
    by (simp add: env_def)
  note run = streaming_fails [OF ready rq_def saved unknown_model_config [OF unknown] up]
  have sent: "notifications (fst (process_streaming_chat env other_data hello_store)) =
     [Status ''Processing with Claude 4 Sonnet...'',
      Error ''Streaming error with Claude 4 Sonnet: overloaded'']"
    by (simp add: run notifications_append user_trace_notifications [OF saved] sonnet_def)
  have absent: "map_of CLAUDE_MODELS ''gpt-4'' = None"
    using unknown_entry [OF unknown] by (simp add: model)
  show ?thesis
    using model sent absent unfolding env_def rq_def by (simp add: default_entry)
qed

text \<open>
  C10, amended. For a chat request whose model identifier is not in the registry, and whose
  turn reaches the upstream, the one upstream request of the turn carries the identifier as
  given, with the maximum output tokens (64000) and the thinking support of the default
  model: the thinking key is set exactly when the request enables thinking. In the
  streaming handler the display name of the default model (\<^verbatim>\<open>Claude 4 Sonnet\<close>) is taken as
  well: the first notification is the status notification with that name, and the error
  notifications of the turn are exactly the one a failure of the stream, or of the query
  for the conversation row after the stream, gives rise to, which carries that name. Every
  assistant message the turn adds to the store carries in its model field the identifier as
  given, within the 100 characters of the column. The upstream request and the store are
  the same for the streaming and for the non-streaming handler.
\<close>

theorem unknown_model_forwarded:
  assumes "rq_model rq \<notin> fst ` set CLAUDE_MODELS" and "client_ready env"
    and "save_user_message env rq (get_db_session db) = Inr (tr, s)"
  shows "sp_model (api_params rq sonnet) = rq_model rq \<and>
         sp_max_tokens (api_params rq sonnet) = 64000 \<and>
         sp_thinking (api_params rq sonnet) = rq_enable_thinking rq \<and>
         (rq = extract_request data \<longrightarrow>
            filter is_invoke (fst (process_streaming_chat env data db)) =
              [Invoke (api_params rq sonnet)] \<and>
            (\<exists>rest. notifications (fst (process_streaming_chat env data db)) =
                      Status ''Processing with Claude 4 Sonnet...'' # rest) \<and>
            filter is_error (notifications (fst (process_streaming_chat env data db))) =
              (case snd (upstream_of env (api_params rq sonnet)) of
                 Some (TimeoutError e) \<Rightarrow>
                   [Error ''Request timed out for Claude 4 Sonnet. Please try again.'']
               | Some (UpstreamError e) \<Rightarrow>
                   [Error (''Streaming error with Claude 4 Sonnet: '' @ e)]
               | None \<Rightarrow>
                   (if truthy (rq_conversation_id rq) \<and>
                       concat (fst (upstream_of env (api_params rq sonnet))) \<noteq> []
                    then (case lookup_fault env of
                            None \<Rightarrow> []
                          | Some e \<Rightarrow> [Error (''Streaming error with Claude 4 Sonnet: '' @ e)])
                    else [])) \<and>
            (\<exists>extra. assistant_messages (snd (process_streaming_chat env data db)) =
                        assistant_messages db @ extra \<and>
                      list_all (\<lambda>m. m_model m = Some (take 100 (rq_model rq))) extra)) \<and>
         filter is_invoke (fst (snd (chat_endpoint env rq db))) =
           [Invoke (api_params rq sonnet)] \<and>
         (\<exists>extra. assistant_messages (snd (snd (chat_endpoint env rq db))) =
                     assistant_messages db @ extra \<and>
                   list_all (\<lambda>m. m_model m = Some (take 100 (rq_model rq))) extra)"
proof -
  note cfg = unknown_model_config [OF assms(1)]
  note quiet_user = user_trace_invokes [OF assms(3)]
  have shown: "name sonnet = ''Claude 4 Sonnet''" by (simp add: sonnet_def)
  obtain fragments failure where
    up: "upstream_of env (api_params rq sonnet) = (fragments, failure)"
    by (cases "upstream_of env (api_params rq sonnet)") auto
  have params: "sp_model (api_params rq sonnet) = rq_model rq \<and>
         sp_max_tokens (api_params rq sonnet) = 64000 \<and>
         sp_thinking (api_params rq sonnet) = rq_enable_thinking rq"
    by (simp add: api_params_def sonnet_def)
  have stream: "filter is_invoke (fst (process_streaming_chat env data db)) =
              [Invoke (api_params rq sonnet)] \<and>
            (\<exists>rest. notifications (fst (process_streaming_chat env data db)) =
                      Status ''Processing with Claude 4 Sonnet...'' # rest) \<and>
            (\<exists>extra. assistant_messages (snd (process_streaming_chat env data db)) =
                        assistant_messages db @ extra \<and>
                      list_all (\<lambda>m. m_model m = Some (take 100 (rq_model rq))) extra)"
    if rq: "rq = extract_request data"
  proof -
    from streaming_opening [OF assms(2) rq assms(3) cfg] obtain rest and final :: session where
      run: "process_streaming_chat env data db =
              (tr @ Send (Status (''Processing with '' @ name sonnet @ ''...''))
                  # Invoke (api_params rq sonnet) # rest, persisted final)"
      and silent: "filter is_invoke rest = []"
      and extra: "\<exists>extra. assistant_messages (persisted final) = assistant_messages db @ extra \<and>
                     list_all (\<lambda>m. m_model m = Some (take 100 (rq_model rq))) extra"
      by blast
    have "filter is_invoke (fst (process_streaming_chat env data db)) =
              [Invoke (api_params rq sonnet)]"
      by (simp add: run quiet_user silent)
    moreover have "\<exists>rest. notifications (fst (process_streaming_chat env data db)) =
                      Status ''Processing with Claude 4 Sonnet...'' # rest"
      by (simp add: run notifications_append user_trace_notifications [OF assms(3)] shown)
    moreover have "\<exists>extra. assistant_messages (snd (process_streaming_chat env data db)) =
                        assistant_messages db @ extra \<and>
                      list_all (\<lambda>m. m_model m = Some (take 100 (rq_model rq))) extra"
      using extra by (simp add: run)
    ultimately show ?thesis by blast
  qed
  have errors: "filter is_error (notifications (fst (process_streaming_chat env data db))) =
              (case snd (upstream_of env (api_params rq sonnet)) of
                 Some (TimeoutError e) \<Rightarrow>
                   [Error ''Request timed out for Claude 4 Sonnet. Please try again.'']
               | Some (UpstreamError e) \<Rightarrow>
                   [Error (''Streaming error with Claude 4 Sonnet: '' @ e)]
               | None \<Rightarrow>
                   (if truthy (rq_conversation_id rq) \<and>
                       concat (fst (upstream_of env (api_params rq sonnet))) \<noteq> []
                    then (case lookup_fault env of
                            None \<Rightarrow> []
                          | Some e \<Rightarrow> [Error (''Streaming error with Claude 4 Sonnet: '' @ e)])
                    else []))"
    if rq: "rq = extract_request data"
  proof (cases failure)
    case None
    show ?thesis
      by (simp add: completed_turn_errors [OF assms(2) rq assms(3) cfg up [unfolded None]]
          up None shown split: option.splits)
  next
    case (Some err)
    show ?thesis
      by (cases err)
         (simp_all add: failed_turn_errors [OF assms(2) rq assms(3) cfg up [unfolded Some]]
           up Some shown)
  qed
  have chat: "filter is_invoke (fst (snd (chat_endpoint env rq db))) =
           [Invoke (api_params rq sonnet)] \<and>
         (\<exists>extra. assistant_messages (snd (snd (chat_endpoint env rq db))) =
                     assistant_messages db @ extra \<and>
                   list_all (\<lambda>m. m_model m = Some (take 100 (rq_model rq))) extra)"
  proof -
    from chat_opening [OF assms(2) assms(3) cfg] obtain answer rest and final :: session where
      run: "chat_endpoint env rq db =
              (answer, tr @ Invoke (api_params rq sonnet) # rest, persisted final)"
      and silent: "filter is_invoke rest = []"
      and extra: "\<exists>extra. assistant_messages (persisted final) = assistant_messages db @ extra \<and>
                     list_all (\<lambda>m. m_model m = Some (take 100 (rq_model rq))) extra"
      by blast
    have "filter is_invoke (fst (snd (chat_endpoint env rq db))) =
           [Invoke (api_params rq sonnet)]"
      by (simp add: run quiet_user silent)
    moreover have "\<exists>extra. assistant_messages (snd (snd (chat_endpoint env rq db))) =
                     assistant_messages db @ extra \<and>
                   list_all (\<lambda>m. m_model m = Some (take 100 (rq_model rq))) extra"
      using extra by (simp add: run)
    ultimately show ?thesis by blast
  qed
  show ?thesis
    using params stream errors chat by blast
qed

theorem unknown_model_forwarded_witness:
  "rq_model (extract_request other_data) \<notin> fst ` set CLAUDE_MODELS \<and>
   client_ready hello_env \<and>
   filter is_invoke (fst (process_streaming_chat hello_env other_data hello_store)) =
     [Invoke (api_params (extract_request other_data) sonnet)] \<and>
   sp_model (api_params (extract_request other_data) sonnet) = ''gpt-4'' \<and>
   sp_max_tokens (api_params (extract_request other_data) sonnet) = 64000 \<and>
   hd (notifications (fst (process_streaming_chat hello_env other_data hello_store))) =
     Status ''Processing with Claude 4 Sonnet...'' \<and>
   filter is_error (notifications (fst (process_streaming_chat hello_env other_data hello_store))) =
     [] \<and>
   map m_model (assistant_messages
                  (snd (process_streaming_chat hello_env other_data hello_store))) =
     [Some ''gpt-4'']"
proof -
  define rq where "rq = extract_request other_data"
  have model: "rq_model rq = ''gpt-4''"
    by (simp add: rq_def extract_request_def other_data_def)
  have unknown: "rq_model rq \<notin> fst ` set CLAUDE_MODELS"
    by (simp add: model registry_keys)
  have ready: "client_ready hello_env" by (simp add: hello_env_def)
  have "\<exists>tr s. save_user_message hello_env rq (get_db_session hello_store) = Inr (tr, s)"
    by (simp add: rq_def save_user_message_def extract_request_def other_data_def hello_data_def
        hello_store_def hello_env_def greeting_def get_db_session_def db_add_def db_commit_def
        user_message_of_def fit_message_def fit_def Let_def)
  then obtain tr s where
    saved: "save_user_message hello_env rq (get_db_session hello_store) = Inr (tr, s)"
    by blast
  note claim = unknown_model_forwarded [OF unknown ready saved, of other_data]
  have up: "upstream_of hello_env (api_params rq sonnet) = ([''Hel'', ''lo''], None)"
    by (simp add: hello_env_def)
  have present: "truthy (rq_conversation_id rq)"
    by (simp add: rq_def extract_request_def other_data_def hello_data_def)
  have filled: "concat [''Hel'', ''lo''] \<noteq> []" by simp
  have answered: "lookup_fault hello_env = None" by (simp add: hello_env_def)
  have accepted: "assistant_commit_fault hello_env = None" by (simp add: hello_env_def)
  have fits: "fit 100 (rq_model rq) = Some ''gpt-4''" by (simp add: model fit_def)
  from claim rq_def
  have first: "\<exists>rest. notifications (fst (process_streaming_chat hello_env other_data hello_store)) =
                  Status ''Processing with Claude 4 Sonnet...'' # rest"
    and errors: "filter is_error
                   (notifications (fst (process_streaming_chat hello_env other_data hello_store))) =
                 (case snd (upstream_of hello_env (api_params rq sonnet)) of
                 Some (TimeoutError e) \<Rightarrow>
                   [Error ''Request timed out for Claude 4 Sonnet. Please try again.'']
               | Some (UpstreamError e) \<Rightarrow>
                   [Error (''Streaming error with Claude 4 Sonnet: '' @ e)]
               | None \<Rightarrow>
                   (if truthy (rq_conversation_id rq) \<and>
                       concat (fst (upstream_of hello_env (api_params rq sonnet))) \<noteq> []
                    then (case lookup_fault hello_env of
                            None \<Rightarrow> []
                          | Some e \<Rightarrow> [Error (''Streaming error with Claude 4 Sonnet: '' @ e)])
                    else []))"
    and invoked: "filter is_invoke (fst (process_streaming_chat hello_env other_data hello_store)) =
                    [Invoke (api_params rq sonnet)]"
    and params: "sp_model (api_params rq sonnet) = rq_model rq"
                "sp_max_tokens (api_params rq sonnet) = 64000"
    by blast+
  have head: "hd (notifications (fst (process_streaming_chat hello_env other_data hello_store))) =
                Status ''Processing with Claude 4 Sonnet...''"
    using first by auto
  have silent: "filter is_error
                  (notifications (fst (process_streaming_chat hello_env other_data hello_store))) = []"
    by (simp add: errors up answered)
  note run = streaming_stored
    [OF ready rq_def saved unknown_model_config [OF unknown] up present filled answered
        accepted fits]
  have stored: "map m_model (assistant_messages
                  (snd (process_streaming_chat hello_env other_data hello_store))) =
                [Some ''gpt-4'']"
    by (simp only: run)
       (simp add: assistant_messages_def hello_store_def user_message_stored_role
         assistant_message_stored_fields assistant_message_stored_model model)
  show ?thesis
    using unknown ready invoked params head silent stored model unfolding rq_def by simp
qed

section \<open>Words of a title\<close>







section \<open>Title generation\<close>

lemma first_messages_length: "length (first_messages n conversation_id db) \<le> n"
  by (simp add: first_messages_def)





























section \<open>The updated timestamp of a conversation\<close>












end
